theory Spec2Isabelle
  imports Main "HOL-Library.Sublist"
begin

section \<open>Python values and the state return dictionary\<close>

text \<open>
  The states of \<^verbatim>\<open>salt/states/git.py\<close> return a dictionary with the keys
  \<^verbatim>\<open>name\<close>, \<^verbatim>\<open>result\<close>, \<^verbatim>\<open>comment\<close> and \<^verbatim>\<open>changes\<close>. The values that the
  module stores in it are \<^verbatim>\<open>None\<close>, booleans, strings and lists of strings;
  \<^verbatim>\<open>result\<close> is \<^verbatim>\<open>True\<close>, \<^verbatim>\<open>False\<close> or \<^verbatim>\<open>None\<close> (the neutral value of a dry-run).
\<close>

datatype pyval = PyNone | PyBool bool | PyStr string | PyList "string list"

text \<open>The dictionary that \<^verbatim>\<open>_parse_fetch\<close> builds: each key is present or absent.\<close>

record fetch_changes =
  new_tags :: "string list option"
  new_branches :: "string list option"
  updated_branches :: "(string \<times> string option \<times> string option) list option"
  updated_tags :: "string list option"

datatype cval = Val pyval | OldNew pyval pyval | Fetched fetch_changes

record ret =
  ret_name :: string
  result :: "bool option"
  comment :: string
  changes :: "string \<rightharpoonup> cval"
  skip_watch :: "bool option"

text \<open>
  An exception raised by a collaborator: \<^verbatim>\<open>CommandExecutionError\<close> with its
  \<^verbatim>\<open>strerror\<close>, or any other exception with its \<^verbatim>\<open>str()\<close>.
\<close>

datatype exn = CommandExecutionError string | OtherException string

fun exc_str :: "exn \<Rightarrow> string" where
  "exc_str (CommandExecutionError s) = s"
| "exc_str (OtherException s) = s"

fun truthy :: "pyval \<Rightarrow> bool" where
  "truthy PyNone = False"
| "truthy (PyBool b) = b"
| "truthy (PyStr s) = (s \<noteq> [])"
| "truthy (PyList l) = (l \<noteq> [])"

definition opt_str :: "string option \<Rightarrow> pyval" where
  "opt_str x = (case x of None \<Rightarrow> PyNone | Some s \<Rightarrow> PyStr s)"

definition opt_list :: "string list option \<Rightarrow> pyval" where
  "opt_list x = (case x of None \<Rightarrow> PyNone | Some l \<Rightarrow> PyList l)"

text \<open>\<^verbatim>\<open>'{0}'.format(x)\<close> for an optional string: \<^verbatim>\<open>None\<close> prints as \<^verbatim>\<open>None\<close>.\<close>

definition fmt :: "string option \<Rightarrow> string" where
  "fmt x = (case x of None \<Rightarrow> ''None'' | Some s \<Rightarrow> s)"

fun join :: "string \<Rightarrow> string list \<Rightarrow> string" where
  "join sep [] = []"
| "join sep [x] = x"
| "join sep (x # y # ys) = x @ sep @ join sep (y # ys)"

definition startswith :: "string \<Rightarrow> string \<Rightarrow> bool" where
  "startswith s p = prefix p s"

section \<open>Helpers of the module\<close>

datatype rev_type = Sha1 | BranchT | TagT

text \<open>\<^verbatim>\<open>_revs_equal(rev1, rev2, rev_type)\<close>\<close>

fun revs_equal :: "string option \<Rightarrow> string option \<Rightarrow> rev_type option \<Rightarrow> bool" where
  "revs_equal None (Some r2) t = False"
| "revs_equal (Some r1) None t = False"
| "revs_equal None None t = True"
| "revs_equal (Some r1) (Some r2) t =
     (if t = Some Sha1 then startswith r1 r2 else r1 = r2)"

text \<open>\<^verbatim>\<open>_short_sha(sha1)\<close>\<close>

definition short_sha :: "string option \<Rightarrow> string option" where
  "short_sha sha1 = (case sha1 of None \<Rightarrow> None | Some s \<Rightarrow> Some (take 7 s))"

text \<open>\<^verbatim>\<open>_format_comments(comments)\<close>\<close>

definition format_comments :: "string list \<Rightarrow> string" where
  "format_comments cs = join ''. '' cs @ (if length cs > 1 then ''.'' else [])"

text \<open>
  \<^verbatim>\<open>_uptodate\<close> is called with a list of comments in the real run and with an
  already formatted string in the dry-run; \<^verbatim>\<open>_format_comments\<close> then joins the
  characters of that string. The argument here is the sequence that Python
  iterates over.
\<close>

definition chars_of :: "string \<Rightarrow> string list" where
  "chars_of s = map (\<lambda>c. [c]) s"

definition uptodate :: "ret \<Rightarrow> string \<Rightarrow> string list \<Rightarrow> ret" where
  "uptodate r tgt cs =
     r\<lparr>comment := ''Repository '' @ tgt @ '' is up-to-date'' @
         (if cs \<noteq> [] then [CHR 0x0A, CHR 0x0A] @ ''Changes made: '' @ format_comments cs else [])\<rparr>"

definition neutral_test :: "ret \<Rightarrow> string \<Rightarrow> ret" where
  "neutral_test r c = r\<lparr>result := None, comment := c\<rparr>"

definition fail :: "ret \<Rightarrow> string \<Rightarrow> string list \<Rightarrow> ret" where
  "fail r msg cs =
     r\<lparr>result := Some False,
       comment := msg @ (if cs \<noteq> [] then [CHR 0x0A, CHR 0x0A] @ ''Changes already made: '' @ format_comments cs
                         else [])\<rparr>"

definition not_fast_forward ::
  "ret \<Rightarrow> string option \<Rightarrow> string option \<Rightarrow> string option \<Rightarrow> string option \<Rightarrow> string list \<Rightarrow> ret" where
  "not_fast_forward r pre post br local_br cs =
     fail r (''Repository would be updated from '' @ fmt (short_sha pre) @ '' to '' @ fmt (short_sha post) @
             (case br of
                None \<Rightarrow> []
              | Some b \<Rightarrow> if br \<noteq> local_br
                           then '' (after checking out local branch '' @ [CHR 0x27] @ b @ [CHR 0x27] @ '')''
                           else []) @
             '', but this is not a fast-forward merge. Set '' @ [CHR 0x27] @ ''force_reset'' @ [CHR 0x27] @
             '' to True to force this update.'') cs"

definition initial_ret :: "string \<Rightarrow> ret" where
  "initial_ret n = \<lparr>ret_name = n, result = Some True, comment = [], changes = Map.empty, skip_watch = None\<rparr>"

section \<open>\<^verbatim>\<open>config_set\<close>\<close>

text \<open>
  \<^verbatim>\<open>multivar\<close> is a list, or anything else, which is split at commas.
\<close>

datatype multivar_arg = MvList "string list" | MvStr string

fun split_comma :: "string \<Rightarrow> string list" where
  "split_comma [] = [[]]"
| "split_comma (c # cs) =
     (if c = CHR '','' then [] # split_comma cs
      else (case split_comma cs of [] \<Rightarrow> [[c]] | w # ws \<Rightarrow> (c # w) # ws))"

record config_args =
  cfg_name :: string
  cfg_value :: "string option"
  cfg_multivar :: "multivar_arg option"
  cfg_repo :: "string option"
  cfg_global :: bool
  cfg_is_global :: bool
  cfg_kwargs :: "string list"

text \<open>
  What \<^verbatim>\<open>config_set\<close> takes from outside the module: the dry-run flag
  \<^verbatim>\<open>__opts__['test']\<close>, the answer of \<^verbatim>\<open>git.config_get\<close> (a list of values or
  \<^verbatim>\<open>None\<close>), the answer of \<^verbatim>\<open>git.config_set\<close> (the values read back after the
  write, or an exception), the message of \<^verbatim>\<open>salt.utils.invalid_kwargs\<close>, the
  substitution of \<^verbatim>\<open>_strip_exc\<close> and Python's \<^verbatim>\<open>str\<close> of a list.
\<close>

record config_env =
  cfg_test :: bool
  cfg_config_get :: "string list option"
  cfg_config_set :: "exn + string list option"
  cfg_invalid_kwargs :: "string list \<Rightarrow> string"
  cfg_strip_exc :: "string \<Rightarrow> string"
  cfg_str_list :: "string list \<Rightarrow> string"

text \<open>The one mutating call of \<^verbatim>\<open>config_set\<close>: repo, key, value, multivar, global.\<close>

datatype config_call =
  ConfigSet "string option" string "string option" "string list option" bool

text \<open>
  The outcome of a state function: the dictionary it returns, or the exception that
  leaves it uncaught, and the mutating calls it made, in order.
\<close>

definition quoted :: "string \<Rightarrow> string" where
  "quoted s = [CHR 0x27] @ s @ [CHR 0x27]"

text \<open>
  \<^verbatim>\<open>multivar\<close> after its normalisation to a list, and the variables
  \<^verbatim>\<open>value_comment\<close> and \<^verbatim>\<open>desired\<close>; they stay unbound when neither \<^verbatim>\<open>value\<close>
  nor \<^verbatim>\<open>multivar\<close> is given (an assignment from \<^verbatim>\<open>multivar\<close> comes last and wins).
\<close>

definition cfg_multivar_list :: "config_args \<Rightarrow> string list option" where
  "cfg_multivar_list a =
     (case cfg_multivar a of
        None \<Rightarrow> None
      | Some (MvList l) \<Rightarrow> Some l
      | Some (MvStr s) \<Rightarrow> Some (split_comma s))"

definition cfg_desired :: "config_args \<Rightarrow> string list option" where
  "cfg_desired a =
     (case cfg_multivar_list a of
        Some l \<Rightarrow> Some l
      | None \<Rightarrow> (case cfg_value a of Some v \<Rightarrow> Some [v] | None \<Rightarrow> None))"

definition cfg_value_comment :: "config_env \<Rightarrow> config_args \<Rightarrow> string" where
  "cfg_value_comment e a =
     (case cfg_multivar_list a of
        Some l \<Rightarrow> cfg_str_list e l
      | None \<Rightarrow> (case cfg_value a of Some v \<Rightarrow> quoted v | None \<Rightarrow> []))"

definition cfg_is_global_eff :: "config_args \<Rightarrow> bool" where
  "cfg_is_global_eff a = (if cfg_is_global a then cfg_is_global a else cfg_global a)"

definition cfg_key_text :: "string \<Rightarrow> config_args \<Rightarrow> string" where
  "cfg_key_text g a = (if cfg_is_global_eff a then g else []) @ quoted (cfg_name a)"

definition cfg_mismatch_msg :: "config_env \<Rightarrow> config_args \<Rightarrow> string" where
  "cfg_mismatch_msg e a = ''Failed to set '' @ cfg_key_text ''global key '' a @ '' to '' @ cfg_value_comment e a"

definition cfg_the_call :: "config_args \<Rightarrow> config_call" where
  "cfg_the_call a =
     ConfigSet (cfg_repo a) (cfg_name a) (cfg_value a) (cfg_multivar_list a) (cfg_is_global_eff a)"

definition config_set :: "config_env \<Rightarrow> config_args \<Rightarrow> (exn + ret) \<times> config_call list" where
  "config_set e a =
    (let r = initial_ret (cfg_name a) in
     if cfg_value a \<noteq> None \<and> cfg_multivar a \<noteq> None then
       (Inr (fail r (''Only one of '' @ quoted ''value'' @ '' and '' @ quoted ''multivar'' @ '' is permitted'') []), [])
     else if cfg_kwargs a \<noteq> [] then
       (Inr (fail r (cfg_invalid_kwargs e (cfg_kwargs a)) []), [])
     else if \<not> cfg_is_global_eff a \<and> (cfg_repo a = None \<or> cfg_repo a = Some []) then
       (Inr (fail r (''Non-global config options require the '' @ quoted ''repo'' @ '' argument to be set'') []), [])
     else
       let pre = cfg_config_get e in
       case cfg_desired a of
         None \<Rightarrow> (Inl (OtherException ''local variable desired referenced before assignment''), [])
       | Some desired \<Rightarrow>
           if Some desired = pre then
             (Inr (r\<lparr>comment := cfg_key_text ''Global key '' a @ '' is already set to '' @ cfg_value_comment e a\<rparr>), [])
           else if cfg_test e then
             (Inr (neutral_test
                     (r\<lparr>changes := Map.empty(''old'' \<mapsto> Val (opt_list pre), ''new'' \<mapsto> Val (PyList desired))\<rparr>)
                     (cfg_key_text ''Global key '' a @ '' would be '' @
                      (if pre = None then ''added as'' else ''set to'') @ '' '' @ cfg_value_comment e a)), [])
           else
             case cfg_config_set e of
               Inl (CommandExecutionError s) \<Rightarrow>
                 (Inr (fail r (cfg_mismatch_msg e a @ '': '' @ cfg_strip_exc e s) []), [cfg_the_call a])
             | Inl (OtherException s) \<Rightarrow> (Inl (OtherException s), [cfg_the_call a])
             | Inr post \<Rightarrow>
                 let r1 = (if pre \<noteq> post
                           then r\<lparr>changes := (changes r)(cfg_name a \<mapsto> OldNew (opt_list pre) (opt_list post))\<rparr>
                           else r)
                 in if post \<noteq> Some desired then
                      (Inr (fail r1 (cfg_mismatch_msg e a) []), [cfg_the_call a])
                    else
                      (Inr (r1\<lparr>comment := cfg_key_text ''Global key '' a @ '' was '' @
                                (if pre = None then ''added as'' else ''set to'') @ '' '' @ cfg_value_comment e a\<rparr>),
                       [cfg_the_call a]))"

text \<open>The validation at the head of \<^verbatim>\<open>config_set\<close> lets the call through.\<close>

definition cfg_valid :: "config_args \<Rightarrow> bool" where
  "cfg_valid a \<longleftrightarrow>
     \<not> (cfg_value a \<noteq> None \<and> cfg_multivar a \<noteq> None) \<and> cfg_kwargs a = [] \<and>
     (cfg_is_global_eff a \<or> (cfg_repo a \<noteq> None \<and> cfg_repo a \<noteq> Some []))"

text \<open>Scenario E of the specification: \<^verbatim>\<open>user.email\<close> is not set yet.\<close>

definition cfg_args_email :: config_args where
  "cfg_args_email =
     \<lparr>cfg_name = ''user.email'', cfg_value = Some ''a@b.c'', cfg_multivar = None,
      cfg_repo = Some ''/srv/repo'', cfg_global = False, cfg_is_global = False, cfg_kwargs = []\<rparr>"

definition cfg_env_email :: config_env where
  "cfg_env_email =
     \<lparr>cfg_test = False, cfg_config_get = None, cfg_config_set = Inr (Some [''a@b.c'']),
      cfg_invalid_kwargs = (\<lambda>ks. []), cfg_strip_exc = (\<lambda>s. s), cfg_str_list = join '', ''\<rparr>"

definition cfg_env_email_dry :: config_env where
  "cfg_env_email_dry = cfg_env_email\<lparr>cfg_test := True\<rparr>"

section \<open>\<^verbatim>\<open>latest\<close>: arguments, collaborators and mutating calls\<close>

datatype identity_arg = IdNone | IdStr string | IdList "string list" | IdOther

text \<open>
  The arguments of \<^verbatim>\<open>latest\<close>. \<^verbatim>\<open>rev\<close>, \<^verbatim>\<open>target\<close>, \<^verbatim>\<open>branch\<close> and \<^verbatim>\<open>remote\<close> are
  strings here (the conversions with \<^verbatim>\<open>str\<close> of other values are outside the model);
  \<^verbatim>\<open>depth\<close> is held as \<^verbatim>\<open>str(depth)\<close>. \<^verbatim>\<open>always_fetch\<close>, \<^verbatim>\<open>force\<close> and
  \<^verbatim>\<open>remote_name\<close> are the deprecated keyword arguments and \<^verbatim>\<open>kwargs\<close> the names of
  the keyword arguments left after them.
\<close>

record args =
  name :: string
  rev_arg :: string
  target :: "string option"
  branch :: "string option"
  force_checkout :: bool
  force_clone :: bool
  force_fetch :: bool
  force_reset :: bool
  submodules :: bool
  bare :: bool
  mirror :: bool
  remote :: string
  fetch_tags :: bool
  depth :: "string option"
  identity :: identity_arg
  https_user :: "string option"
  https_pass :: "string option"
  onlyif :: "string option"
  unless :: "string option"
  always_fetch :: bool
  force :: bool
  remote_name :: "string option"
  kwargs :: "string list"

text \<open>
  The mutating operations that \<^verbatim>\<open>latest\<close> can invoke, with the arguments that
  identify them: \<^verbatim>\<open>git.remote_set\<close> (target, url, remote), \<^verbatim>\<open>git.fetch\<close> (target,
  remote, force, refspecs), \<^verbatim>\<open>git.checkout\<close> (target, rev, force, opts),
  \<^verbatim>\<open>git.reset\<close> (target, opts), \<^verbatim>\<open>git.merge\<close> (target, rev, opts), \<^verbatim>\<open>git.branch\<close>
  (target, branch or \<^verbatim>\<open>None\<close>, opts), \<^verbatim>\<open>git.submodule\<close> (target, command, opts),
  \<^verbatim>\<open>git.clone\<close> (target, url, opts), \<^verbatim>\<open>os.unlink\<close> and \<^verbatim>\<open>salt.utils.rm_rf\<close>.
\<close>

datatype call =
    RemoteSet string string string
  | Fetch string string bool "string list"
  | Checkout string string bool "string list"
  | Reset string "string list"
  | Merge string string "string list"
  | Branch string "string option" "string list"
  | Submodule string string "string list"
  | Clone string string "string list"
  | Unlink string
  | RmRf string

text \<open>
  One line of the output of \<^verbatim>\<open>git fetch\<close> as \<^verbatim>\<open>update_re\<close> sees it: no match, or the
  four groups (old SHA, new SHA, new ref type, ref name) of the match. The pattern
  starts with a greedy \<^verbatim>\<open>.*\<close>, so the first group holds no more than the last digit of
  the old SHA that the line shows.
\<close>

type_synonym fetch_line = "(string option \<times> string option \<times> string option \<times> string) option"

text \<open>
  Everything \<^verbatim>\<open>latest\<close> takes from outside the module. The answers of the
  collaborators are given for each place of the function that asks:
  \<^item> \<^verbatim>\<open>test\<close> is \<^verbatim>\<open>__opts__['test']\<close>;
  \<^item> \<^verbatim>\<open>invalid_kwargs\<close>, \<^verbatim>\<open>add_http_basic_auth\<close> (a \<^verbatim>\<open>ValueError\<close> is \<^verbatim>\<open>Inl\<close>),
    \<^verbatim>\<open>redact_http_basic_auth\<close> on a string, \<^verbatim>\<open>redact_none\<close> (what
    \<^verbatim>\<open>redact_http_basic_auth(None)\<close> does) and \<^verbatim>\<open>strip_exc_sub\<close> (the substitution
    of \<^verbatim>\<open>_strip_exc\<close>) are the helpers of \<^verbatim>\<open>salt.utils\<close> and \<^verbatim>\<open>re\<close>;
  \<^item> \<^verbatim>\<open>cp_cache_file\<close> (\<^verbatim>\<open>None\<close> for an \<^verbatim>\<open>IOError\<close>), \<^verbatim>\<open>isfile\<close>, \<^verbatim>\<open>isdir\<close>,
    \<^verbatim>\<open>islink\<close>, \<^verbatim>\<open>listdir\<close> and \<^verbatim>\<open>cmd_retcode\<close> read the minion;
  \<^item> \<^verbatim>\<open>remote_refs\<close> is \<^verbatim>\<open>git.remote_refs\<close> (\<^verbatim>\<open>Inl\<close> is the \<^verbatim>\<open>strerror\<close> of a
    \<^verbatim>\<open>CommandExecutionError\<close>) and \<^verbatim>\<open>git_version_ge_1_8_0\<close> the version test;
  \<^item> \<^verbatim>\<open>list_branches\<close> to \<^verbatim>\<open>merge_base\<close> are asked of the existing repository
    before any mutation; \<^verbatim>\<open>rev_parse\<close> takes the revision and the options;
    \<^verbatim>\<open>remotes\<close> maps a remote name to its fetch URL;
  \<^item> \<^verbatim>\<open>outcome\<close> tells whether a mutating call raises, \<^verbatim>\<open>fetch_output\<close> is the
    output of a successful fetch, \<^verbatim>\<open>remove_error\<close> the \<^verbatim>\<open>OSError\<close> of the removal
    of the target directory;
  \<^item> \<^verbatim>\<open>rev_parse_fetched\<close> and \<^verbatim>\<open>merge_base_fetched\<close> are asked after the fetch,
    \<^verbatim>\<open>status\<close> before the checkout, \<^verbatim>\<open>symbolic_ref\<close> before the merge and
    \<^verbatim>\<open>new_revision\<close> at the end;
  \<^item> the fields ending in \<^verbatim>\<open>cloned\<close> are asked of the fresh clone.
\<close>

record env =
  test :: bool
  invalid_kwargs :: "string list \<Rightarrow> string"
  add_http_basic_auth :: "string \<Rightarrow> string option \<Rightarrow> string option \<Rightarrow> string + string"
  redact_http_basic_auth :: "string \<Rightarrow> string"
  redact_none :: "exn + pyval"
  strip_exc_sub :: "string \<Rightarrow> string"
  cp_cache_file :: "string \<Rightarrow> string option"
  isfile :: "string \<Rightarrow> bool"
  isdir :: "string \<Rightarrow> bool"
  islink :: "string \<Rightarrow> bool"
  listdir :: "string \<Rightarrow> string list"
  cmd_retcode :: "string \<Rightarrow> int"
  remote_refs :: "string + (string \<times> string) list"
  git_version_ge_1_8_0 :: bool
  is_worktree :: bool
  list_branches :: "exn + string list"
  list_tags :: "exn + string list"
  revision :: "exn + string"
  current_branch :: "exn + string"
  rev_parse :: "string \<Rightarrow> string list \<Rightarrow> exn + string"
  remotes :: "exn + (string \<times> string) list"
  merge_base :: "string \<Rightarrow> string \<Rightarrow> exn + bool"
  outcome :: "call \<Rightarrow> exn option"
  fetch_output :: "fetch_line list"
  remove_error :: "string option"
  rev_parse_fetched :: "string \<Rightarrow> exn + string"
  merge_base_fetched :: "string \<Rightarrow> string \<Rightarrow> exn + bool"
  status :: "exn + bool"
  symbolic_ref :: "exn + bool"
  new_revision :: "exn + string"
  list_tags_cloned :: "exn + string list"
  list_branches_cloned :: "exn + string list"
  revision_cloned :: "exn + string"
  current_branch_cloned :: "exn + string"
  rev_parse_cloned :: "string \<Rightarrow> exn + string"

subsection \<open>Strings and paths\<close>

definition py_str :: "pyval \<Rightarrow> string" where
  "py_str v = (case v of PyNone \<Rightarrow> ''None'' | PyBool b \<Rightarrow> (if b then ''True'' else ''False'')
                | PyStr s \<Rightarrow> s | PyList l \<Rightarrow> join '', '' l)"

text \<open>\<^verbatim>\<open>os.path.isabs\<close> and \<^verbatim>\<open>os.path.join\<close> of two components, on POSIX.\<close>

definition isabs :: "string \<Rightarrow> bool" where
  "isabs p = (case p of [] \<Rightarrow> False | c # cs \<Rightarrow> c = CHR ''/'')"

definition path_join :: "string \<Rightarrow> string \<Rightarrow> string" where
  "path_join p q =
     (if isabs q then q
      else if p = [] \<or> last p = CHR ''/'' then p @ q
      else p @ ''/'' @ q)"

definition hexdigits :: string where
  "hexdigits = ''0123456789abcdefABCDEF''"

text \<open>\<^verbatim>\<open>str.lower\<close> on ASCII.\<close>

definition lower_char :: "char \<Rightarrow> char" where
  "lower_char c =
     (case map_of (zip ''ABCDEFGHIJKLMNOPQRSTUVWXYZ'' ''abcdefghijklmnopqrstuvwxyz'') c of
        None \<Rightarrow> c
      | Some d \<Rightarrow> d)"

definition lower :: "string \<Rightarrow> string" where
  "lower s = map lower_char s"

text \<open>\<^verbatim>\<open>str.rstrip()\<close>: trailing whitespace goes.\<close>

definition is_space :: "char \<Rightarrow> bool" where
  "is_space c \<longleftrightarrow> c \<in> set [CHR '' '', CHR 0x09, CHR 0x0A, CHR 0x0B, CHR 0x0C, CHR 0x0D]"

definition rstrip :: "string \<Rightarrow> string" where
  "rstrip s = rev (dropWhile is_space (rev s))"

subsection \<open>\<^verbatim>\<open>_parse_fetch\<close>\<close>

definition no_fetch_changes :: fetch_changes where
  "no_fetch_changes = \<lparr>new_tags = None, new_branches = None, updated_branches = None, updated_tags = None\<rparr>"

text \<open>\<^verbatim>\<open>d.setdefault(k, []).append(x)\<close> and \<^verbatim>\<open>d.setdefault(k, {})[r] = v\<close>\<close>

definition setdefault_append :: "'a list option \<Rightarrow> 'a \<Rightarrow> 'a list option" where
  "setdefault_append l x = (case l of None \<Rightarrow> Some [x] | Some xs \<Rightarrow> Some (xs @ [x]))"

fun dict_put :: "'k \<Rightarrow> 'v \<Rightarrow> ('k \<times> 'v) list \<Rightarrow> ('k \<times> 'v) list" where
  "dict_put k v [] = [(k, v)]"
| "dict_put k v ((k', v') # kvs) = (if k = k' then (k, v) # kvs else (k', v') # dict_put k v kvs)"

definition parse_fetch_line :: "fetch_changes \<Rightarrow> fetch_line \<Rightarrow> fetch_changes" where
  "parse_fetch_line fc l =
     (case l of
        None \<Rightarrow> fc
      | Some (old_sha, new_sha, new_ref_type, ref_name) \<Rightarrow>
          if new_ref_type \<noteq> None then
            (if new_ref_type = Some ''tag''
             then fc\<lparr>new_tags := setdefault_append (new_tags fc) (rstrip ref_name)\<rparr>
             else fc\<lparr>new_branches := setdefault_append (new_branches fc) (rstrip ref_name)\<rparr>)
          else if old_sha \<noteq> None then
            fc\<lparr>updated_branches :=
                 Some (dict_put (rstrip ref_name) (old_sha, new_sha)
                         (case updated_branches fc of None \<Rightarrow> [] | Some d \<Rightarrow> d))\<rparr>
          else fc\<lparr>updated_tags := setdefault_append (updated_tags fc) (rstrip ref_name)\<rparr>)"

definition parse_fetch :: "fetch_line list \<Rightarrow> fetch_changes" where
  "parse_fetch ls = foldl parse_fetch_line no_fetch_changes ls"

subsection \<open>The arguments after the deprecated ones are folded in\<close>

definition eff_force_clone :: "args \<Rightarrow> bool" where
  "eff_force_clone a = (if force a then force a else force_clone a)"

definition eff_remote :: "args \<Rightarrow> string" where
  "eff_remote a = (case remote_name a of None \<Rightarrow> remote a | Some n \<Rightarrow> if n \<noteq> [] then n else remote a)"

definition eff_bare :: "args \<Rightarrow> bool" where
  "eff_bare a = (if mirror a then True else bare a)"

definition the_target :: "args \<Rightarrow> string" where
  "the_target a = (case target a of None \<Rightarrow> [] | Some t \<Rightarrow> t)"

definition identity_list :: "args \<Rightarrow> string list" where
  "identity_list a = (case identity a of IdStr s \<Rightarrow> [s] | IdList l \<Rightarrow> l | _ \<Rightarrow> [])"

fun check_identity :: "env \<Rightarrow> string list \<Rightarrow> string option" where
  "check_identity e [] = None"
| "check_identity e (p # ps) =
     (if sublist ''salt://'' p then
        (case cp_cache_file e p of
           None \<Rightarrow> Some (''identity '' @ quoted p @ '' does not exist.'')
         | Some q \<Rightarrow> if \<not> isabs q then Some (''identity '' @ quoted q @ '' is not an absolute path'')
                     else check_identity e ps)
      else if \<not> isabs p then Some (''identity '' @ quoted p @ '' is not an absolute path'')
      else check_identity e ps)"

definition desired_fetch_url :: "env \<Rightarrow> args \<Rightarrow> string" where
  "desired_fetch_url e a =
     (case add_http_basic_auth e (name a) (https_user a) (https_pass a) of Inl m \<Rightarrow> [] | Inr u \<Rightarrow> u)"

definition redacted_fetch_url :: "env \<Rightarrow> args \<Rightarrow> string" where
  "redacted_fetch_url e a = redact_http_basic_auth e (desired_fetch_url e a)"

text \<open>\<^verbatim>\<open>mod_run_check\<close>: the comment of the dictionary it returns, or \<^verbatim>\<open>None\<close> for \<^verbatim>\<open>True\<close>.\<close>

definition str_truthy :: "string option \<Rightarrow> bool" where
  "str_truthy x = (case x of None \<Rightarrow> False | Some s \<Rightarrow> s \<noteq> [])"

definition mod_run_check :: "env \<Rightarrow> string option \<Rightarrow> string option \<Rightarrow> string option" where
  "mod_run_check e oi ul =
     (if (case oi of None \<Rightarrow> False | Some c \<Rightarrow> c \<noteq> [] \<and> cmd_retcode e c \<noteq> 0)
      then Some ''onlyif execution failed''
      else if (case ul of None \<Rightarrow> False | Some c \<Rightarrow> c \<noteq> [] \<and> cmd_retcode e c = 0)
      then Some ''unless execution succeeded''
      else None)"

text \<open>
  Lines 370 to 501: the checks of the arguments and the \<^verbatim>\<open>onlyif\<close>/\<^verbatim>\<open>unless\<close>
  commands. \<^verbatim>\<open>Some r\<close> is the dictionary returned early.
\<close>

definition precheck :: "env \<Rightarrow> args \<Rightarrow> ret option" where
  "precheck e a =
    (let r = initial_ret (name a) in
     if kwargs a \<noteq> [] then Some (fail r (invalid_kwargs e (kwargs a)) [])
     else if eff_remote a = [] then Some (fail r (quoted ''remote'' @ '' argument is required'') [])
     else if \<not> str_truthy (target a) then Some (fail r (quoted ''target'' @ '' argument is required'') [])
     else if rev_arg a = [] then
       Some (fail r (quoted (rev_arg a) @ '' is not a valid value for the '' @ quoted ''rev'' @ '' argument'') [])
     else if \<not> isabs (the_target a) then
       Some (fail r (''target '' @ quoted (the_target a) @ '' is not an absolute path'') [])
     else if identity a = IdOther then Some (fail r ''identity must be either a list or a string'' [])
     else case check_identity e (identity_list a) of
       Some m \<Rightarrow> Some (fail r m [])
     | None \<Rightarrow>
         if isfile e (the_target a) then
           Some (fail r (''Target '' @ quoted (the_target a) @ '' exists and is a regular file, cannot proceed'') [])
         else case add_http_basic_auth e (name a) (https_user a) (https_pass a) of
           Inl m \<Rightarrow> Some (fail r m [])
         | Inr u \<Rightarrow>
             if rev_arg a \<noteq> ''HEAD'' \<and> eff_bare a then
               Some (fail r (quoted ''rev'' @ '' is not compatible with the '' @ quoted ''mirror'' @ '' and '' @
                             quoted ''bare'' @ '' arguments'') [])
             else case mod_run_check e (onlyif a) (unless a) of
               Some c \<Rightarrow> Some (r\<lparr>comment := c, skip_watch := Some True, result := Some True\<rparr>)
             | None \<Rightarrow> None)"

definition refspecs :: "args \<Rightarrow> string list" where
  "refspecs a =
     (if fetch_tags a then [''refs/heads/*:refs/remotes/'' @ eff_remote a @ ''/*'', ''+refs/tags/*:refs/tags/*'']
      else [])"

subsection \<open>Lines 525 to 566: the remote revision\<close>

text \<open>
  \<^verbatim>\<open>rev\<close> (lower-cased when it is taken as a SHA1), \<^verbatim>\<open>remote_rev\<close>,
  \<^verbatim>\<open>desired_upstream\<close> (\<^verbatim>\<open>None\<close>, \<^verbatim>\<open>False\<close> or \<^verbatim>\<open>remote/rev\<close>), \<^verbatim>\<open>remote_rev_type\<close> and
  \<^verbatim>\<open>head_ref\<close>. A variable that the source leaves unbound holds \<^verbatim>\<open>None\<close> here (the
  empty string for \<^verbatim>\<open>head_ref\<close>); the one read of an unbound variable, of
  \<^verbatim>\<open>remote_rev_type\<close> at line 637 for a bare repository, is modelled there.
\<close>

record resolved =
  rev_eff :: string
  remote_rev :: "string option"
  desired_upstream :: pyval
  remote_rev_type :: "rev_type option"
  head_ref :: string

definition resolve :: "string \<Rightarrow> string \<Rightarrow> bool \<Rightarrow> (string \<times> string) list \<Rightarrow> resolved" where
  "resolve rem rv is_bare refs =
    (let unbound = \<lparr>rev_eff = rv, remote_rev = None, desired_upstream = PyNone, remote_rev_type = None, head_ref = []\<rparr>
     in
     if is_bare then unbound
     else if rv = ''HEAD'' then
       (case map_of refs ''HEAD'' of
          Some sha \<Rightarrow> \<lparr>rev_eff = rv, remote_rev = Some sha, desired_upstream = PyNone,
                       remote_rev_type = Some Sha1, head_ref = rem @ ''/HEAD''\<rparr>
        | None \<Rightarrow> unbound)
     else case map_of refs (''refs/heads/'' @ rv) of
       Some sha \<Rightarrow> \<lparr>rev_eff = rv, remote_rev = Some sha, desired_upstream = PyStr (join ''/'' [rem, rv]),
                    remote_rev_type = Some BranchT, head_ref = []\<rparr>
     | None \<Rightarrow>
        (case map_of refs (''refs/tags/'' @ rv @ ''^{}'') of
           Some sha \<Rightarrow> \<lparr>rev_eff = rv, remote_rev = Some sha, desired_upstream = PyBool False,
                        remote_rev_type = Some TagT, head_ref = []\<rparr>
         | None \<Rightarrow>
            (case map_of refs (''refs/tags/'' @ rv) of
               Some sha \<Rightarrow> \<lparr>rev_eff = rv, remote_rev = Some sha, desired_upstream = PyBool False,
                            remote_rev_type = Some TagT, head_ref = []\<rparr>
             | None \<Rightarrow>
                 if length rv \<le> 40 \<and> (\<forall>x \<in> set rv. x \<in> set hexdigits) then
                   \<lparr>rev_eff = lower rv, remote_rev = Some (lower rv), desired_upstream = PyBool False,
                    remote_rev_type = Some Sha1, head_ref = []\<rparr>
                 else unbound)))"

section \<open>\<^verbatim>\<open>latest\<close> on an existing repository\<close>

subsection \<open>The state threaded through the run\<close>

text \<open>
  The dictionary \<^verbatim>\<open>ret\<close>, the list \<^verbatim>\<open>comments\<close> and the mutating calls made so far,
  in order. A call is recorded when it is made, whether it raises or not.
\<close>

record st =
  ret_of :: ret
  comments :: "string list"
  calls :: "call list"

definition start :: "args \<Rightarrow> st" where
  "start a = \<lparr>ret_of = initial_ret (name a), comments = [], calls = []\<rparr>"

definition set_change :: "string \<Rightarrow> cval \<Rightarrow> ret \<Rightarrow> ret" where
  "set_change k v r = r\<lparr>changes := (changes r)(k \<mapsto> v)\<rparr>"

definition add_change :: "string \<Rightarrow> cval \<Rightarrow> st \<Rightarrow> st" where
  "add_change k v s = s\<lparr>ret_of := set_change k v (ret_of s)\<rparr>"

definition add_comment :: "string \<Rightarrow> st \<Rightarrow> st" where
  "add_comment c s = s\<lparr>comments := comments s @ [c]\<rparr>"

definition add_call :: "call \<Rightarrow> st \<Rightarrow> st" where
  "add_call c s = s\<lparr>calls := calls s @ [c]\<rparr>"

text \<open>
  The handler of lines 1183 to 1192 and 1418 to 1427: the message of a
  \<^verbatim>\<open>CommandExecutionError\<close> goes through \<^verbatim>\<open>_strip_exc\<close>, any other exception
  through \<^verbatim>\<open>str\<close>.
\<close>

definition exc_msg :: "env \<Rightarrow> exn \<Rightarrow> string" where
  "exc_msg e x = (case x of CommandExecutionError m \<Rightarrow> strip_exc_sub e m | OtherException m \<Rightarrow> m)"

definition unexpected :: "env \<Rightarrow> st \<Rightarrow> exn \<Rightarrow> ret \<times> call list" where
  "unexpected e s x = (fail (ret_of s) (exc_msg e x) (comments s), calls s)"

text \<open>\<^verbatim>\<open>try: v = f() except CommandExecutionError: v = None\<close>; other exceptions go on.\<close>

definition catch_cee :: "exn + 'a \<Rightarrow> exn + 'a option" where
  "catch_cee x =
     (case x of
        Inl (CommandExecutionError m) \<Rightarrow> Inr None
      | Inl (OtherException m) \<Rightarrow> Inl (OtherException m)
      | Inr v \<Rightarrow> Inr (Some v))"

subsection \<open>Lines 590 to 790: what is known of the local repository\<close>

record facts =
  all_local_branches :: "string list"
  all_local_tags :: "string list"
  local_rev :: "string option"
  local_branch :: "string option"
  base_rev :: "string option"
  base_branch :: "string option"
  has_remote_rev :: bool
  fast_forward :: "bool option"
  merge_action :: string
  upstream :: pyval
  fetch_url :: "string option"

text \<open>
  During the inspection \<^verbatim>\<open>ret\<close> is as it was created and \<^verbatim>\<open>comments\<close> is empty, so
  an early return is a dictionary (\<^verbatim>\<open>Inl\<close>) and no call has been made.
\<close>

definition fail0 :: "args \<Rightarrow> string \<Rightarrow> ret" where
  "fail0 a m = fail (initial_ret (name a)) m []"

text \<open>Lines 611 to 631: \<^verbatim>\<open>base_rev\<close> and \<^verbatim>\<open>base_branch\<close>.\<close>

definition base_of ::
  "env \<Rightarrow> args \<Rightarrow> string list \<Rightarrow> string option \<Rightarrow> string option \<Rightarrow> ret + (string option \<times> string option)" where
  "base_of e a branches lrev lbranch =
     (case branch a of
        None \<Rightarrow> Inr (lrev, lbranch)
      | Some b \<Rightarrow>
          if Some b \<noteq> lbranch \<and> b \<in> set branches then
            (case rev_parse e (b @ ''^{commit}'') [] of
               Inl (CommandExecutionError m) \<Rightarrow>
                 Inl (fail0 a (''Unable to get position of local branch '' @ quoted b @ '': '' @ strip_exc_sub e m))
             | Inl (OtherException m) \<Rightarrow> Inl (fail0 a m)
             | Inr v \<Rightarrow> Inr (Some v, Some b))
          else Inr (lrev, lbranch))"

definition tag_moved_msg :: "string \<Rightarrow> string \<Rightarrow> string option \<Rightarrow> string" where
  "tag_moved_msg rv r local_tag_sha1 =
     quoted rv @ '' is a tag, but the remote SHA1 for this tag ('' @ fmt (short_sha (Some r)) @
     '') doesn'' @ [CHR 0x27] @ ''t match the local SHA1 ('' @ fmt (short_sha local_tag_sha1) @ ''). Set '' @
     quoted ''force_reset'' @ '' to True to force this update.''"

text \<open>
  Lines 637 to 721: \<^verbatim>\<open>has_remote_rev\<close>, or the early return for a tag that moved. With
  \<^verbatim>\<open>remote_rev_type == 'sha1'\<close> the source calls \<^verbatim>\<open>base_rev.startswith(remote_rev)\<close>, which
  raises for \<^verbatim>\<open>remote_rev = None\<close>.
\<close>

definition has_remote_rev_of ::
  "env \<Rightarrow> args \<Rightarrow> resolved \<Rightarrow> string option \<Rightarrow> string list \<Rightarrow> (string \<times> string) list \<Rightarrow> ret + bool" where
  "has_remote_rev_of e a rs brev tags rems =
     (case remote_rev rs of
        None \<Rightarrow>
          if remote_rev_type rs = Some Sha1 \<and> brev \<noteq> None
          then Inl (fail0 a ''startswith first arg must be str, unicode, or tuple, not NoneType'')
          else Inr False
      | Some r \<Rightarrow>
          if remote_rev_type rs = Some Sha1 \<and> (case brev of None \<Rightarrow> False | Some b \<Rightarrow> startswith b r)
          then Inr True
          else
            (case rev_parse e (r @ ''^{commit}'') [] of
               Inl (CommandExecutionError m) \<Rightarrow> Inr False
             | Inl (OtherException m) \<Rightarrow> Inl (fail0 a m)
             | Inr v \<Rightarrow>
                 (case remote_rev_type rs of
                    None \<Rightarrow> Inr False
                  | Some Sha1 \<Rightarrow> Inr True
                  | Some BranchT \<Rightarrow>
                      (case map_of rems (eff_remote a) of
                         None \<Rightarrow> Inr False
                       | Some u \<Rightarrow>
                           (case rev_parse e (py_str (desired_upstream rs)) [] of
                              Inl (CommandExecutionError m) \<Rightarrow> Inr False
                            | Inl (OtherException m) \<Rightarrow> Inl (fail0 a m)
                            | Inr local_copy \<Rightarrow> Inr (local_copy = r)))
                  | Some TagT \<Rightarrow>
                      if rev_eff rs \<in> set tags then
                        (case catch_cee (rev_parse e (rev_eff rs @ ''^{commit}'') []) of
                           Inl x \<Rightarrow> Inl (fail0 a (exc_msg e x))
                         | Inr local_tag_sha1 \<Rightarrow>
                             if local_tag_sha1 = Some r then Inr True
                             else if \<not> force_reset a
                             then Inl (fail0 a (tag_moved_msg (rev_eff rs) r local_tag_sha1))
                             else Inr False)
                      else Inr False)))"

text \<open>Lines 723 to 744: \<^verbatim>\<open>fast_forward\<close> is \<^verbatim>\<open>None\<close>, \<^verbatim>\<open>True\<close> or the answer of \<^verbatim>\<open>git.merge_base\<close>.\<close>

definition fast_forward_of :: "env \<Rightarrow> args \<Rightarrow> resolved \<Rightarrow> string option \<Rightarrow> bool \<Rightarrow> ret + bool option" where
  "fast_forward_of e a rs brev has =
     (if \<not> has then Inr None
      else case brev of
        None \<Rightarrow> Inr (Some True)
      | Some b \<Rightarrow>
          (case merge_base e b (fmt (remote_rev rs)) of
             Inl x \<Rightarrow> Inl (fail0 a (exc_msg e x))
           | Inr v \<Rightarrow> Inr (Some v)))"

text \<open>The suffix that names the upstream of a branch: an at sign and \<^verbatim>\<open>{upstream}\<close>.\<close>

definition at_upstream :: string where
  "at_upstream = CHR 0x40 # ''{upstream}''"

text \<open>Lines 761 to 781: \<^verbatim>\<open>upstream\<close> is \<^verbatim>\<open>None\<close>, \<^verbatim>\<open>False\<close> or the tracking branch.\<close>

definition upstream_of :: "env \<Rightarrow> args \<Rightarrow> string option \<Rightarrow> ret + pyval" where
  "upstream_of e a bbranch =
     (case bbranch of
        None \<Rightarrow> Inr PyNone
      | Some bb \<Rightarrow>
          (case rev_parse e (bb @ at_upstream) [''--abbrev-ref''] of
             Inl (CommandExecutionError m) \<Rightarrow> Inr (PyBool False)
           | Inl (OtherException m) \<Rightarrow> Inl (fail0 a m)
           | Inr v \<Rightarrow> Inr (PyStr v)))"

definition merge_action_of :: "bool option \<Rightarrow> string" where
  "merge_action_of ff =
     (if ff = Some False then ''hard-reset'' else if ff = Some True then ''fast-forwarded'' else ''updated'')"

text \<open>Lines 591 to 601: the local branches, tags, revision and branch.\<close>

definition local_state ::
  "env \<Rightarrow> args \<Rightarrow> resolved \<Rightarrow> ret + (string list \<times> string list \<times> string option \<times> string option)" where
  "local_state e a rs =
     (case list_branches e of
        Inl x \<Rightarrow> Inl (fail0 a (exc_msg e x))
      | Inr branches \<Rightarrow>
     (case list_tags e of
        Inl x \<Rightarrow> Inl (fail0 a (exc_msg e x))
      | Inr tags \<Rightarrow>
     (case catch_cee (revision e) of
        Inl x \<Rightarrow> Inl (fail0 a (exc_msg e x))
      | Inr lrev \<Rightarrow>
     (case catch_cee (current_branch e) of
        Inl x \<Rightarrow> Inl (fail0 a (exc_msg e x))
      | Inr lbranch \<Rightarrow>
          if remote_rev rs = None \<and> lrev \<noteq> None then
            Inl (fail0 a ''Remote repository is empty, cannot update from a non-empty to an empty repository'')
          else Inr (branches, tags, lrev, lbranch)))))"

text \<open>
  Lines 603 to 759 after the local state: the base, the remotes, the read of
  \<^verbatim>\<open>remote_rev_type\<close> (unbound for a bare repository, line 637), \<^verbatim>\<open>has_remote_rev\<close>,
  \<^verbatim>\<open>fast_forward\<close> and the refusal of an update that is not a fast-forward.
\<close>

definition compare_revs ::
  "env \<Rightarrow> args \<Rightarrow> resolved \<Rightarrow> string list \<Rightarrow> string list \<Rightarrow> string option \<Rightarrow> string option \<Rightarrow>
   ret + (string option \<times> string option \<times> (string \<times> string) list \<times> bool \<times> bool option)" where
  "compare_revs e a rs branches tags lrev lbranch =
     (case base_of e a branches lrev lbranch of
        Inl r \<Rightarrow> Inl r
      | Inr (brev, bbranch) \<Rightarrow>
     (case remotes e of
        Inl x \<Rightarrow> Inl (fail0 a (exc_msg e x))
      | Inr rems \<Rightarrow>
          if eff_bare a then
            Inl (fail0 a (''local variable '' @ quoted ''remote_rev_type'' @ '' referenced before assignment''))
          else
     (case has_remote_rev_of e a rs brev tags rems of
        Inl r \<Rightarrow> Inl r
      | Inr has \<Rightarrow>
     (case fast_forward_of e a rs brev has of
        Inl r \<Rightarrow> Inl r
      | Inr ff \<Rightarrow>
          if ff = Some False \<and> \<not> force_reset a then
            Inl (not_fast_forward (initial_ret (name a)) brev (remote_rev rs) (branch a) lbranch [])
          else Inr (brev, bbranch, rems, has, ff)))))"

definition inspect :: "env \<Rightarrow> args \<Rightarrow> resolved \<Rightarrow> ret + facts" where
  "inspect e a rs =
     (case local_state e a rs of
        Inl r \<Rightarrow> Inl r
      | Inr (branches, tags, lrev, lbranch) \<Rightarrow>
     (case compare_revs e a rs branches tags lrev lbranch of
        Inl r \<Rightarrow> Inl r
      | Inr (brev, bbranch, rems, has, ff) \<Rightarrow>
     (case upstream_of e a bbranch of
        Inl r \<Rightarrow> Inl r
      | Inr up \<Rightarrow>
          Inr \<lparr>all_local_branches = branches, all_local_tags = tags, local_rev = lrev, local_branch = lbranch,
               base_rev = brev, base_branch = bbranch, has_remote_rev = has, fast_forward = ff,
               merge_action = merge_action_of ff, upstream = up,
               fetch_url = map_of rems (eff_remote a)\<rparr>)))"

subsection \<open>Lines 1175 to 1207: the final revision and the result\<close>

definition finish :: "env \<Rightarrow> args \<Rightarrow> resolved \<Rightarrow> facts \<Rightarrow> st \<Rightarrow> ret \<times> call list" where
  "finish e a rs f s =
     (case catch_cee (new_revision e) of
        Inl x \<Rightarrow> unexpected e s x
      | Inr new_rev \<Rightarrow>
          if \<not> eff_bare a \<and> \<not> revs_equal new_rev (remote_rev rs) (remote_rev_type rs) then
            (fail (ret_of s) ''Failed to update repository'' (comments s), calls s)
          else if local_rev f \<noteq> new_rev then
            (set_change ''revision'' (OldNew (opt_str (local_rev f)) (opt_str new_rev))
               ((ret_of s)\<lparr>comment := format_comments (comments s)\<rparr>), calls s)
          else (uptodate (ret_of s) (the_target a) (comments s), calls s))"

subsection \<open>Lines 948 to 1150: the real run\<close>

text \<open>A mutating call: it is recorded, and what it raises goes to the handler.\<close>

definition invoke :: "env \<Rightarrow> call \<Rightarrow> st \<Rightarrow> (st \<Rightarrow> ret \<times> call list) \<Rightarrow> ret \<times> call list" where
  "invoke e c s k = (case outcome e c of Some x \<Rightarrow> unexpected e (add_call c s) x | None \<Rightarrow> k (add_call c s))"

text \<open>\<^verbatim>\<open>desired_upstream if desired_upstream else rev\<close>, after \<^verbatim>\<open>head_ref\<close> for \<^verbatim>\<open>HEAD\<close>.\<close>

definition upstream_or_rev :: "resolved \<Rightarrow> string" where
  "upstream_or_rev rs =
     (if truthy (desired_upstream rs) then py_str (desired_upstream rs) else rev_eff rs)"

definition ref_to_use :: "resolved \<Rightarrow> string" where
  "ref_to_use rs = (if rev_eff rs = ''HEAD'' then head_ref rs else upstream_or_rev rs)"

definition set_upstream :: "env \<Rightarrow> string" where
  "set_upstream e = (if git_version_ge_1_8_0 e then ''--set-upstream-to'' else ''--track'')"

text \<open>
  Lines 948 to 966: \<^verbatim>\<open>upstream_action\<close> and \<^verbatim>\<open>branch_opts\<close>, or \<^verbatim>\<open>None\<close> when the
  tracking branch stays.
\<close>

definition branch_opts :: "env \<Rightarrow> pyval \<Rightarrow> pyval \<Rightarrow> (string \<times> string list) option" where
  "branch_opts e up du =
     (if \<not> truthy up \<and> truthy du then
        Some (''Tracking branch was set to '' @ py_str du, [set_upstream e, py_str du])
      else if truthy up \<and> du = PyBool False then
        Some (''Tracking branch was unset'', [''--unset-upstream''])
      else if truthy du \<and> up \<noteq> du then
        Some (''Tracking branch was updated to '' @ py_str du, [set_upstream e, py_str du])
      else None)"

text \<open>Lines 1145 to 1150.\<close>

definition apply_submodules :: "env \<Rightarrow> args \<Rightarrow> resolved \<Rightarrow> facts \<Rightarrow> st \<Rightarrow> ret \<times> call list" where
  "apply_submodules e a rs f s =
     (if submodules a then
        invoke e (Submodule (the_target a) ''update'' [''--recursive'', ''--init'']) s (finish e a rs f)
      else finish e a rs f s)"

text \<open>Lines 1095 to 1141: the fast-forward, by a merge or by a reset.\<close>

definition apply_ff ::
  "env \<Rightarrow> args \<Rightarrow> resolved \<Rightarrow> facts \<Rightarrow> string \<Rightarrow> bool option \<Rightarrow> st \<Rightarrow> ret \<times> call list" where
  "apply_ff e a rs f r ff s =
     (if ff = Some True \<and> \<not> revs_equal (base_rev f) (Some r) (remote_rev_type rs) then
        if truthy (desired_upstream rs) then
          (case symbolic_ref e of
             Inl x \<Rightarrow> unexpected e s x
           | Inr on_branch \<Rightarrow>
               if on_branch then
                 let merge_rev = (if rev_eff rs = ''HEAD'' then head_ref rs else py_str (desired_upstream rs)) in
                 invoke e (Merge (the_target a) merge_rev [''--ff-only'']) s
                   (\<lambda>s1. apply_submodules e a rs f
                      (add_comment (''Repository was fast-forwarded to '' @ merge_rev @ '' ('' @
                                    fmt (short_sha (Some r)) @ '')'') s1))
               else apply_submodules e a rs f s)
        else
          invoke e (Reset (the_target a) [''--hard'', if rev_eff rs = ''HEAD'' then r else rev_eff rs]) s
            (\<lambda>s1. apply_submodules e a rs f
               (add_comment (''Repository was reset to '' @ rev_eff rs @ '' (fast-forward)'') s1))
      else apply_submodules e a rs f s)"

text \<open>Lines 1082 to 1093: the tracking branch.\<close>

definition apply_branch ::
  "env \<Rightarrow> args \<Rightarrow> resolved \<Rightarrow> facts \<Rightarrow> string \<Rightarrow> bool option \<Rightarrow> st \<Rightarrow> ret \<times> call list" where
  "apply_branch e a rs f r ff s =
     (case branch_opts e (upstream f) (desired_upstream rs) of
        None \<Rightarrow> apply_ff e a rs f r ff s
      | Some (upstream_action, opts) \<Rightarrow>
          invoke e (Branch (the_target a) (base_branch f) opts) s
            (\<lambda>s1. apply_ff e a rs f r ff
               (add_comment upstream_action
                  (add_change ''upstream''
                     (OldNew (upstream f)
                        (if truthy (desired_upstream rs) then desired_upstream rs else PyNone)) s1))))"

text \<open>Lines 1062 to 1080: the hard reset of an update that is not a fast-forward.\<close>

definition apply_reset ::
  "env \<Rightarrow> args \<Rightarrow> resolved \<Rightarrow> facts \<Rightarrow> string \<Rightarrow> bool option \<Rightarrow> st \<Rightarrow> ret \<times> call list" where
  "apply_reset e a rs f r ff s =
     (if ff = Some False then
        invoke e (Reset (the_target a) [''--hard'', r]) s
          (\<lambda>s1. apply_branch e a rs f r ff
             (add_comment (''Repository was hard-reset to '' @ ref_to_use rs @ '' ('' @
                           fmt (short_sha (Some r)) @ '')'')
                (add_change ''forced update'' (Val (PyBool True)) s1)))
      else apply_branch e a rs f r ff s)"

text \<open>
  Lines 1027 to 1060: the checkout of the local branch. The message of the refusal
  is not formatted in the source, so it holds \<^verbatim>\<open>{0}\<close> as written.
\<close>

definition uncommitted_msg :: string where
  "uncommitted_msg =
     ''Local branch '' @ quoted ''{0}'' @ '' has uncommitted changes. Set '' @ quoted ''force_checkout'' @
     '' to discard them and proceed.''"

definition apply_checkout ::
  "env \<Rightarrow> args \<Rightarrow> resolved \<Rightarrow> facts \<Rightarrow> string \<Rightarrow> bool option \<Rightarrow> st \<Rightarrow> ret \<times> call list" where
  "apply_checkout e a rs f r ff s =
     (case branch a of
        None \<Rightarrow> apply_reset e a rs f r ff s
      | Some b \<Rightarrow>
          if Some b \<noteq> local_branch f then
            (case status e of
               Inl x \<Rightarrow> unexpected e s x
             | Inr local_changes \<Rightarrow>
                 if local_changes \<and> \<not> force_checkout a then
                   (fail (ret_of s) uncommitted_msg [], calls s)
                 else
                   invoke e
                     (if b \<notin> set (all_local_branches f)
                      then Checkout (the_target a) (ref_to_use rs) (force_checkout a) [''-b'', b]
                      else Checkout (the_target a) b (force_checkout a) [])
                     s
                     (\<lambda>s1. apply_reset e a rs f r ff
                        (add_change ''local branch'' (OldNew (opt_str (local_branch f)) (PyStr b)) s1)))
          else apply_reset e a rs f r ff s)"

text \<open>Lines 968 to 1025: the fetch and the second test of the fast-forward.\<close>

definition fetch_failed_msg :: "env \<Rightarrow> string \<Rightarrow> string" where
  "fetch_failed_msg e m =
     ''Fetch failed'' @ ''. Set '' @ quoted ''force_fetch'' @
     '' to True to force the fetch if the failure was due to it bein non-fast-forward. '' @
     ''Output of the fetch command follows:'' @ [CHR 0x0A, CHR 0x0A] @ strip_exc_sub e m"

definition record_fetch :: "env \<Rightarrow> st \<Rightarrow> st" where
  "record_fetch e s =
     (if parse_fetch (fetch_output e) \<noteq> no_fetch_changes
      then add_change ''fetch'' (Fetched (parse_fetch (fetch_output e))) s
      else s)"

definition the_fetch :: "args \<Rightarrow> call" where
  "the_fetch a = Fetch (the_target a) (eff_remote a) (force_fetch a) (refspecs a)"

definition apply_fetch :: "env \<Rightarrow> args \<Rightarrow> resolved \<Rightarrow> facts \<Rightarrow> string \<Rightarrow> st \<Rightarrow> ret \<times> call list" where
  "apply_fetch e a rs f r s =
     (if \<not> has_remote_rev f then
        let s1 = add_call (the_fetch a) s in
        case outcome e (the_fetch a) of
          Some (CommandExecutionError m) \<Rightarrow> (fail (ret_of s1) (fetch_failed_msg e m) (comments s1), calls s1)
        | Some (OtherException m) \<Rightarrow> unexpected e s1 (OtherException m)
        | None \<Rightarrow>
            let s2 = record_fetch e s1 in
            (case rev_parse_fetched e (r @ ''^{commit}'') of
               Inl (CommandExecutionError m) \<Rightarrow>
                 (fail (ret_of s2) (''Fetch did not successfully retrieve rev '' @ rev_eff rs @ '': '' @ m) [],
                  calls s2)
             | Inl (OtherException m) \<Rightarrow> unexpected e s2 (OtherException m)
             | Inr v \<Rightarrow>
                 (case (case base_rev f of None \<Rightarrow> Inr True | Some b \<Rightarrow> merge_base_fetched e b r) of
                    Inl x \<Rightarrow> unexpected e s2 x
                  | Inr ff \<Rightarrow>
                      if \<not> ff \<and> \<not> force_reset a then
                        (not_fast_forward (ret_of s2) (base_rev f) (Some r) (branch a) (local_branch f)
                           (comments s2), calls s2)
                      else apply_checkout e a rs f r (Some ff) s2))
      else apply_checkout e a rs f r (fast_forward f) s)"

subsection \<open>Lines 848 to 946: the prediction of the dry-run\<close>

definition predicted_ret :: "ret \<Rightarrow> string \<Rightarrow> string list \<Rightarrow> ret" where
  "predicted_ret r tgt actions =
     (if changes r \<noteq> Map.empty then neutral_test r (format_comments actions)
      else uptodate r tgt (chars_of (format_comments actions)))"

definition upstream_prediction :: "pyval \<Rightarrow> pyval \<Rightarrow> string option" where
  "upstream_prediction up du =
     (if \<not> truthy up \<and> truthy du then Some (''Tracking branch would be set to '' @ py_str du)
      else if truthy up \<and> du = PyBool False then Some ''Tracking branch would be unset''
      else if truthy du \<and> up \<noteq> du then Some (''Tracking branch would be updated to '' @ py_str du)
      else None)"

definition branch_prediction :: "args \<Rightarrow> resolved \<Rightarrow> facts \<Rightarrow> string \<Rightarrow> ret \<Rightarrow> ret \<times> string list" where
  "branch_prediction a rs f r r1 =
     (case branch a of
        Some b \<Rightarrow>
          if Some b \<noteq> local_branch f then
            let r2 = set_change ''local branch'' (OldNew (opt_str (local_branch f)) (PyStr b)) r1 in
            if b \<notin> set (all_local_branches f) then
              (r2, [''New branch '' @ quoted b @ '' would be checked out, with '' @ upstream_or_rev rs @ '' ('' @
                    fmt (short_sha (Some r)) @ '') as a starting point''] @
                   (if truthy (desired_upstream rs)
                    then [''Tracking branch would be set to '' @ py_str (desired_upstream rs)] else []))
            else
              (if fast_forward f = Some False then set_change ''hard reset'' (Val (PyBool True)) r2 else r2,
               [''Branch '' @ quoted b @ '' would be checked out and '' @ merge_action f @ '' to '' @
                fmt (short_sha (Some r))])
          else (r1, [])
      | None \<Rightarrow>
          if \<not> revs_equal (local_rev f) (Some r) (remote_rev_type rs) then
            if fast_forward f = Some True then
              (r1, [''Repository would be fast-forwarded from '' @ fmt (short_sha (local_rev f)) @ '' to '' @
                    fmt (short_sha (Some r))])
            else
              (r1, [''Repository would be '' @
                    (if force_reset a \<and> has_remote_rev f then ''hard-reset'' else ''updated'') @
                    '' from '' @ fmt (short_sha (local_rev f)) @ '' to '' @ fmt (short_sha (Some r))])
          else (r1, []))"

definition predict :: "env \<Rightarrow> args \<Rightarrow> resolved \<Rightarrow> facts \<Rightarrow> string \<Rightarrow> st \<Rightarrow> ret \<times> call list" where
  "predict e a rs f r s =
     (let r1 = (if \<not> revs_equal (local_rev f) (Some r) (remote_rev_type rs)
                then set_change ''revision'' (OldNew (opt_str (local_rev f)) (PyStr r)) (ret_of s)
                else ret_of s);
          actions1 = (if \<not> has_remote_rev f then [''Remote '' @ quoted (eff_remote a) @ '' would be fetched'']
                      else []);
          bp = branch_prediction a rs f r r1;
          up = upstream_prediction (upstream f) (desired_upstream rs);
          r3 = (if up \<noteq> None then set_change ''upstream'' (OldNew (upstream f) (desired_upstream rs)) (fst bp)
                else fst bp);
          actions = actions1 @ snd bp @ (case up of None \<Rightarrow> [] | Some t \<Rightarrow> [t])
      in (predicted_ret r3 (the_target a) actions, calls s))"

subsection \<open>Lines 792 to 845: the URL of the remote\<close>

definition redact_opt :: "env \<Rightarrow> string option \<Rightarrow> exn + pyval" where
  "redact_opt e u = (case u of None \<Rightarrow> redact_none e | Some v \<Rightarrow> Inr (PyStr (redact_http_basic_auth e v)))"

definition remote_key :: "args \<Rightarrow> string" where
  "remote_key a = ''remotes/'' @ eff_remote a"

definition predict_remote :: "env \<Rightarrow> args \<Rightarrow> resolved \<Rightarrow> facts \<Rightarrow> string \<Rightarrow> st \<Rightarrow> ret \<times> call list" where
  "predict_remote e a rs f r s =
     (case redact_opt e (fetch_url f) of
        Inl x \<Rightarrow> unexpected e s x
      | Inr old \<Rightarrow>
          let r1 = set_change (remote_key a) (OldNew old (PyStr (redacted_fetch_url e a))) (ret_of s);
              differs = \<not> revs_equal (local_rev f) (Some r) (remote_rev_type rs);
              r2 = (if differs then set_change ''revision'' (OldNew (opt_str (local_rev f)) (PyStr r)) r1 else r1);
              r3 = (if differs \<and> fast_forward f = Some False
                    then set_change ''forced update'' (Val (PyBool True)) r2 else r2);
              actions = [''Remote '' @ quoted (eff_remote a) @ '' would be set to '' @ redacted_fetch_url e a] @
                        (if \<not> has_remote_rev f then [''Remote would be fetched''] else []) @
                        (if differs then [''Repository would be '' @ merge_action f @ '' to '' @
                                          fmt (short_sha (Some r))] else [])
          in (predicted_ret r3 (the_target a) actions, calls s))"

definition the_remote_set :: "args \<Rightarrow> call" where
  "the_remote_set a = RemoteSet (the_target a) (name a) (eff_remote a)"

text \<open>Lines 1151 to 1173: the fetch into a bare repository.\<close>

definition bare_fetch :: "env \<Rightarrow> args \<Rightarrow> resolved \<Rightarrow> facts \<Rightarrow> st \<Rightarrow> ret \<times> call list" where
  "bare_fetch e a rs f s =
     (if test e then
        (predicted_ret (ret_of s) (the_target a) [''Bare repository at '' @ the_target a @ '' would be fetched''],
         calls s)
      else
        invoke e (the_fetch a) s
          (\<lambda>s1. finish e a rs f
             (add_comment (''Bare repository at '' @ the_target a @ '' was fetched'') (record_fetch e s1))))"

text \<open>Lines 792 to 1173: from the URL of the remote to the submodules.\<close>

definition update :: "env \<Rightarrow> args \<Rightarrow> resolved \<Rightarrow> facts \<Rightarrow> st \<Rightarrow> ret \<times> call list" where
  "update e a rs f s =
     (case remote_rev rs of
        Some r \<Rightarrow> if test e then predict e a rs f r s else apply_fetch e a rs f r s
      | None \<Rightarrow> if eff_bare a then bare_fetch e a rs f s else finish e a rs f s)"

definition set_remote_url :: "env \<Rightarrow> args \<Rightarrow> resolved \<Rightarrow> facts \<Rightarrow> ret \<times> call list" where
  "set_remote_url e a rs f =
     (case remote_rev rs of
        None \<Rightarrow> update e a rs f (start a)
      | Some r \<Rightarrow>
          if Some (desired_fetch_url e a) \<noteq> fetch_url f then
            if test e then predict_remote e a rs f r (start a)
            else
              invoke e (the_remote_set a) (start a)
                (\<lambda>s1. case redact_opt e (fetch_url f) of
                         Inl x \<Rightarrow> unexpected e s1 x
                       | Inr old \<Rightarrow>
                           update e a rs f
                             (add_comment (''Remote '' @ quoted (eff_remote a) @ '' set to '' @
                                           redacted_fetch_url e a)
                                (add_change (remote_key a) (OldNew old (PyStr (redacted_fetch_url e a))) s1)))
          else update e a rs f (start a))"

definition existing :: "env \<Rightarrow> args \<Rightarrow> resolved \<Rightarrow> ret \<times> call list" where
  "existing e a rs =
     (case inspect e a rs of
        Inl r \<Rightarrow> (r, [])
      | Inr f \<Rightarrow> set_remote_url e a rs f)"

section \<open>\<^verbatim>\<open>latest\<close> when the target is not a repository: lines 1208 to 1434\<close>

definition new_entry :: "args \<Rightarrow> cval" where
  "new_entry a = Val (PyStr (name a @ '' => '' @ the_target a))"

definition clone_opts :: "args \<Rightarrow> string list" where
  "clone_opts a =
     (if mirror a then [''--mirror''] else if eff_bare a then [''--bare''] else []) @
     (if eff_remote a \<noteq> ''origin'' then [''--origin'', eff_remote a] else []) @
     (case depth a of None \<Rightarrow> [] | Some d \<Rightarrow> [''--depth'', d])"

definition the_clone :: "args \<Rightarrow> call" where
  "the_clone a = Clone (the_target a) (name a) (clone_opts a)"

text \<open>Lines 1429 to 1434: the comment and the new revision.\<close>

definition clone_result :: "st \<Rightarrow> string option \<Rightarrow> ret \<times> call list" where
  "clone_result s new_rev =
     (let r = (ret_of s)\<lparr>comment := format_comments (comments s)\<rparr> in
      (case new_rev of
         None \<Rightarrow> r
       | Some n \<Rightarrow> set_change ''revision'' (OldNew PyNone (PyStr n)) r), calls s)"

text \<open>Lines 1403 to 1416: the submodules and the final revision.\<close>

definition clone_finish :: "env \<Rightarrow> args \<Rightarrow> resolved \<Rightarrow> st \<Rightarrow> ret \<times> call list" where
  "clone_finish e a rs s =
     (let k = (\<lambda>s1. case catch_cee (new_revision e) of
                       Inl x \<Rightarrow> unexpected e s1 x
                     | Inr new_rev \<Rightarrow> clone_result s1 new_rev)
      in if submodules a \<and> str_truthy (remote_rev rs)
         then invoke e (Submodule (the_target a) ''update'' [''--recursive'', ''--init'']) s k
         else k s)"

text \<open>
  Lines 1365 to 1401: the tracking branch of the clone. The concatenation of
  \<^verbatim>\<open>local_branch\<close> and the upstream suffix raises a \<^verbatim>\<open>TypeError\<close> when there is no
  local branch.
\<close>

definition clone_upstream ::
  "env \<Rightarrow> args \<Rightarrow> resolved \<Rightarrow> string option \<Rightarrow> st \<Rightarrow> ret \<times> call list" where
  "clone_upstream e a rs lbranch s =
     (case lbranch of
        None \<Rightarrow> unexpected e s (OtherException (''unsupported operand type(s) for +: '' @ quoted ''NoneType'' @
                                                 '' and '' @ quoted ''str''))
      | Some lb \<Rightarrow>
          (case rev_parse_cloned e (lb @ at_upstream) of
             Inl (OtherException m) \<Rightarrow> unexpected e s (OtherException m)
           | other \<Rightarrow>
               (case branch_opts e (case other of Inr v \<Rightarrow> PyStr v | Inl x \<Rightarrow> PyBool False)
                       (desired_upstream rs) of
                  None \<Rightarrow> clone_finish e a rs s
                | Some (upstream_action, opts) \<Rightarrow>
                    invoke e (Branch (the_target a) (Some lb) opts) s
                      (\<lambda>s1. clone_finish e a rs (add_comment upstream_action s1)))))"

text \<open>Lines 1340 to 1363: the local revision of the clone and the reset to the remote revision.\<close>

definition clone_reset :: "env \<Rightarrow> args \<Rightarrow> resolved \<Rightarrow> string \<Rightarrow> st \<Rightarrow> ret \<times> call list" where
  "clone_reset e a rs r s =
     (case catch_cee (revision_cloned e) of
        Inl x \<Rightarrow> unexpected e s x
      | Inr lrev \<Rightarrow>
     (case catch_cee (current_branch_cloned e) of
        Inl x \<Rightarrow> unexpected e s x
      | Inr lbranch \<Rightarrow>
          if \<not> revs_equal lrev (Some r) (remote_rev_type rs) then
            invoke e (Reset (the_target a) [''--hard'', r]) s
              (\<lambda>s1. clone_upstream e a rs lbranch
                 (add_comment (''Repository was reset to '' @ ref_to_use rs @ '' ('' @
                               fmt (short_sha (Some r)) @ '')'') s1))
          else clone_upstream e a rs lbranch s))"

text \<open>Lines 1305 to 1338: the tag must be in the clone; the local branch is created.\<close>

definition clone_checkout :: "env \<Rightarrow> args \<Rightarrow> resolved \<Rightarrow> string \<Rightarrow> st \<Rightarrow> ret \<times> call list" where
  "clone_checkout e a rs r s =
     (case (if remote_rev_type rs = Some TagT then list_tags_cloned e else Inr [rev_eff rs]) of
        Inl x \<Rightarrow> unexpected e s x
      | Inr tags \<Rightarrow>
          if remote_rev_type rs = Some TagT \<and> rev_eff rs \<notin> set tags then
            (fail (ret_of s) (''Revision '' @ quoted (rev_eff rs) @ '' does not exist in clone'') (comments s),
             calls s)
          else
            (case branch a of
               None \<Rightarrow> clone_reset e a rs r s
             | Some b \<Rightarrow>
                 (case list_branches_cloned e of
                    Inl x \<Rightarrow> unexpected e s x
                  | Inr branches \<Rightarrow>
                      if b \<notin> set branches then
                        invoke e (Checkout (the_target a) (ref_to_use rs) False [''-b'', b]) s
                          (\<lambda>s1. clone_reset e a rs r
                             (add_comment (''Branch '' @ quoted b @ '' checked out, with '' @ upstream_or_rev rs @
                                           '' ('' @ fmt (short_sha (Some r)) @ '') as a starting point'') s1))
                      else clone_reset e a rs r s)))"

text \<open>Lines 1263 to 1303: the clone itself.\<close>

definition do_clone :: "env \<Rightarrow> args \<Rightarrow> resolved \<Rightarrow> st \<Rightarrow> ret \<times> call list" where
  "do_clone e a rs s =
     invoke e (the_clone a) s
       (\<lambda>s1. let s2 = add_comment
                         (name a @ '' cloned to '' @ the_target a @
                          (if mirror a then '' as mirror'' else if eff_bare a then '' as bare repository'' else []))
                         (add_change ''new'' (new_entry a) s1)
              in if eff_bare a then clone_finish e a rs s2
                 else case remote_rev rs of
                   None \<Rightarrow>
                     if rev_eff rs \<noteq> ''HEAD'' then
                       (fail (ret_of s2) (''Repository was cloned but is empty, so '' @ eff_remote a @ ''/'' @
                                          rev_eff rs @ '' cannot be checked out'') (comments s2), calls s2)
                     else clone_finish e a rs s2
                 | Some r \<Rightarrow>
                     if r = [] then
                       (if rev_eff rs \<noteq> ''HEAD'' then
                          (fail (ret_of s2) (''Repository was cloned but is empty, so '' @ eff_remote a @ ''/'' @
                                             rev_eff rs @ '' cannot be checked out'') (comments s2), calls s2)
                        else clone_finish e a rs s2)
                     else clone_checkout e a rs r s2)"

text \<open>Lines 1209 to 1262: the target directory is cleared or refused, and the dry-run returns.\<close>

definition clone_path :: "env \<Rightarrow> args \<Rightarrow> resolved \<Rightarrow> ret \<times> call list" where
  "clone_path e a rs =
     (let s = start a;
          would_clone = (\<lambda>s1. if test e then
                                 (neutral_test (set_change ''new'' (new_entry a) (ret_of s1))
                                    (''Repository '' @ name a @ '' would be cloned to '' @ the_target a), calls s1)
                               else do_clone e a rs s1)
      in if isdir e (the_target a) then
           if eff_force_clone a then
             if test e then
               (neutral_test
                  (set_change ''new'' (new_entry a) (set_change ''forced clone'' (Val (PyBool True)) (ret_of s)))
                  (''Target directory '' @ the_target a @ '' exists. Since force_clone=True, the contents of '' @
                   the_target a @ '' would be deleted, and '' @ name a @
                   '' would be cloned into this directory.''), calls s)
             else
               let s1 = add_call (if islink e (the_target a) then Unlink (the_target a) else RmRf (the_target a)) s
               in case remove_error e of
                    Some m \<Rightarrow> (fail (ret_of s1) (''Unable to remove '' @ the_target a @ '': '' @ m) (comments s1),
                               calls s1)
                  | None \<Rightarrow> would_clone (add_change ''forced clone'' (Val (PyBool True)) s1)
           else if listdir e (the_target a) \<noteq> [] then
             (fail (ret_of s)
                (''Target '' @ quoted (the_target a) @ '' exists, is non-empty and is not a git repository. Set the '' @
                 quoted ''force_clone'' @ '' option to True to remove this directory'' @ [CHR 0x27] @
                 ''s contents and proceed with cloning the remote repository'') [], calls s)
           else would_clone s
         else would_clone s)"

section \<open>\<^verbatim>\<open>latest\<close>\<close>

definition gitdir :: "args \<Rightarrow> string" where
  "gitdir a = path_join (the_target a) (if eff_bare a then ''refs'' else ''.git'')"

text \<open>Target directory is a git repository or git worktree (line 588).\<close>

definition is_repo :: "env \<Rightarrow> args \<Rightarrow> bool" where
  "is_repo e a \<longleftrightarrow> isdir e (gitdir a) \<or> is_worktree e"

definition all_remote_refs :: "env \<Rightarrow> (string \<times> string) list" where
  "all_remote_refs e = (case remote_refs e of Inl m \<Rightarrow> [] | Inr refs \<Rightarrow> refs)"

definition resolved_of :: "env \<Rightarrow> args \<Rightarrow> resolved" where
  "resolved_of e a = resolve (eff_remote a) (rev_arg a) (eff_bare a) (all_remote_refs e)"

definition no_revision_msg :: "string \<Rightarrow> string" where
  "no_revision_msg rv = ''No revision matching '' @ quoted rv @ '' exists in the remote repository''"

definition latest :: "env \<Rightarrow> args \<Rightarrow> ret \<times> call list" where
  "latest e a =
     (case precheck e a of
        Some r \<Rightarrow> (r, [])
      | None \<Rightarrow>
          (case remote_refs e of
             Inl m \<Rightarrow> (fail0 a (''Failed to check remote refs: '' @ strip_exc_sub e m), [])
           | Inr refs \<Rightarrow>
               if remote_rev (resolved_of e a) = None \<and> \<not> eff_bare a \<and> rev_eff (resolved_of e a) \<noteq> ''HEAD''
               then (fail0 a (no_revision_msg (rev_eff (resolved_of e a))), [])
               else if is_repo e a then existing e a (resolved_of e a)
               else clone_path e a (resolved_of e a)))"

section \<open>Concrete repositories\<close>

definition shaA :: string where "shaA = ''aaaaaaaaaaaaaaaaaaaaaaaaaaaaaaaaaaaaaaaa''"
definition shaB :: string where "shaB = ''bbbbbbbbbbbbbbbbbbbbbbbbbbbbbbbbbbbbbbbb''"
definition shaC :: string where "shaC = ''cccccccccccccccccccccccccccccccccccccccc''"

text \<open>
  \<^verbatim>\<open>git.latest\<close> of \<^verbatim>\<open>https://x/repo.git\<close>, revision \<^verbatim>\<open>main\<close>, into \<^verbatim>\<open>/srv/repo\<close>, with every
  other argument at its default.
\<close>

definition args_main :: args where
  "args_main =
     \<lparr>name = ''https://x/repo.git'', rev_arg = ''main'', target = Some ''/srv/repo'', branch = None,
      force_checkout = False, force_clone = False, force_fetch = False, force_reset = False,
      submodules = False, bare = False, mirror = False, remote = ''origin'', fetch_tags = True,
      depth = None, identity = IdNone, https_user = None, https_pass = None, onlyif = None,
      unless = None, always_fetch = False, force = False, remote_name = None, kwargs = []\<rparr>"

text \<open>
  Scenario C of the specification: \<^verbatim>\<open>/srv/repo\<close> is a clone on branch \<^verbatim>\<open>main\<close> at commit
  A, tracking \<^verbatim>\<open>origin/main\<close>; the remote \<^verbatim>\<open>main\<close> has moved to B, a descendant of A that
  the clone does not have yet. The fetch brings B, the merge moves \<^verbatim>\<open>HEAD\<close> to B. The
  fetch prints the line \<^verbatim>\<open>aaaaaaa..bbbbbbb  main       -> origin/main\<close> after three
  spaces; the greedy \<^verbatim>\<open>.*\<close> at the head of \<^verbatim>\<open>update_re\<close> leaves the last digit of the old
  SHA to the first group.
\<close>

definition env_ff :: env where
  "env_ff =
     \<lparr>test = False,
      invalid_kwargs = (\<lambda>ks. ''Invalid keyword arguments''),
      add_http_basic_auth = (\<lambda>u usr pw. Inr u),
      redact_http_basic_auth = (\<lambda>u. u),
      redact_none = Inl (OtherException ''expected string or buffer''),
      strip_exc_sub = (\<lambda>m. m),
      cp_cache_file = (\<lambda>p. Some p),
      isfile = (\<lambda>p. False),
      isdir = (\<lambda>p. p = ''/srv/repo'' \<or> p = ''/srv/repo/.git''),
      islink = (\<lambda>p. False),
      listdir = (\<lambda>p. [''.git'']),
      cmd_retcode = (\<lambda>c. 0),
      remote_refs = Inr [(''HEAD'', shaB), (''refs/heads/main'', shaB)],
      git_version_ge_1_8_0 = True,
      is_worktree = False,
      list_branches = Inr [''main''],
      list_tags = Inr [],
      revision = Inr shaA,
      current_branch = Inr ''main'',
      rev_parse = (\<lambda>ref opts. if ref = ''main'' @ at_upstream then Inr ''origin/main''
                               else Inl (CommandExecutionError ''unknown revision'')),
      remotes = Inr [(''origin'', ''https://x/repo.git'')],
      merge_base = (\<lambda>b r. Inr (b = shaA \<and> r = shaB)),
      outcome = (\<lambda>c. None),
      fetch_output = [Some (Some ''a'', Some ''bbbbbbb'', None, ''main       '')],
      remove_error = None,
      rev_parse_fetched = (\<lambda>ref. Inr shaB),
      merge_base_fetched = (\<lambda>b r. Inr (b = shaA \<and> r = shaB)),
      status = Inr False,
      symbolic_ref = Inr True,
      new_revision = Inr shaB,
      list_tags_cloned = Inr [],
      list_branches_cloned = Inr [''main''],
      revision_cloned = Inr shaB,
      current_branch_cloned = Inr ''main'',
      rev_parse_cloned = (\<lambda>ref. Inr ''origin/main'')\<rparr>"

text \<open>The same call with the default revision.\<close>

definition args_head :: args where
  "args_head = args_main\<lparr>rev_arg := ''HEAD''\<rparr>"

text \<open>
  A remote that advertises no ref at all. The target is not there yet; in the fresh
  clone of the empty remote there is neither a revision nor a branch, and a reset to
  an unknown commit raises.
\<close>

definition env_empty_remote :: env where
  "env_empty_remote =
     env_ff\<lparr>remote_refs := Inr [],
            isdir := (\<lambda>p. False),
            revision_cloned := Inl (CommandExecutionError ''unknown revision HEAD''),
            current_branch_cloned := Inl (CommandExecutionError ''unknown revision HEAD''),
            new_revision := Inl (CommandExecutionError ''unknown revision HEAD''),
            outcome := (\<lambda>c. case c of Reset t opts \<Rightarrow> Some (CommandExecutionError ''unknown revision'')
                                    | _ \<Rightarrow> None)\<rparr>"

definition args_hex :: args where
  "args_hex = args_main\<lparr>rev_arg := ''abc123''\<rparr>"

definition args_nosuch :: args where
  "args_nosuch = args_main\<lparr>rev_arg := ''release''\<rparr>"

text \<open>The existing clone at commit A of the first scenario, and the remote now empty.\<close>

definition env_emptied :: env where
  "env_emptied = env_ff\<lparr>remote_refs := Inr []\<rparr>"

text \<open>
  A bare repository: \<^verbatim>\<open>/srv/repo.git\<close> was cloned with \<^verbatim>\<open>bare=True\<close> by a first run from a
  remote whose \<^verbatim>\<open>HEAD\<close> is B, and \<^verbatim>\<open>latest\<close> is run again with the same arguments.
\<close>

definition args_bare :: args where
  "args_bare = args_main\<lparr>rev_arg := ''HEAD'', target := Some ''/srv/repo.git'', bare := True\<rparr>"

definition env_bare :: env where
  "env_bare =
     env_ff\<lparr>isdir := (\<lambda>p. p = ''/srv/repo.git'' \<or> p = ''/srv/repo.git/refs''),
            listdir := (\<lambda>p. [''HEAD'', ''config'', ''objects'', ''refs'']),
            revision := Inr shaB,
            rev_parse := (\<lambda>ref opts. Inl (CommandExecutionError ''no upstream configured''))\<rparr>"


text \<open>
  Scenario D of the specification: the clone is at commit A and the remote \<^verbatim>\<open>main\<close> is
  at C, which does not descend from A. In \<^verbatim>\<open>env_diverged\<close> the clone does not have C yet
  (the fetch brings it, moving \<^verbatim>\<open>origin/main\<close> forward from D, the commit where A and C
  part, with the line \<^verbatim>\<open>ddddddd..ccccccc  main       -> origin/main\<close>); in
  \<^verbatim>\<open>env_diverged_local\<close> an earlier fetch has brought C and \<^verbatim>\<open>origin/main\<close> points to it.
\<close>

definition env_diverged :: env where
  "env_diverged =
     env_ff\<lparr>remote_refs := Inr [(''HEAD'', shaC), (''refs/heads/main'', shaC)],
            merge_base := (\<lambda>b r. Inr False),
            fetch_output := [Some (Some ''d'', Some ''ccccccc'', None, ''main       '')],
            rev_parse_fetched := (\<lambda>ref. Inr shaC),
            merge_base_fetched := (\<lambda>b r. Inr False),
            new_revision := Inr shaA\<rparr>"

definition env_diverged_local :: env where
  "env_diverged_local =
     env_diverged\<lparr>rev_parse := (\<lambda>ref opts. if ref = ''main'' @ at_upstream then Inr ''origin/main''
                                            else Inr shaC)\<rparr>"

text \<open>
  A tag that moved: the clone is at commit A on \<^verbatim>\<open>main\<close> (no upstream set) and has the tag
  \<^verbatim>\<open>v1\<close> at A; on the remote \<^verbatim>\<open>v1\<close> is now at B, a descendant of A. In \<^verbatim>\<open>env_tag_moved\<close>
  the clone does not have B yet; in \<^verbatim>\<open>env_tag_moved_local\<close> it has. The fetch, whose
  refspec forces the tags, moves the local tag to B and prints a \<^verbatim>\<open>[tag update]\<close> line
  after the line of the branch.
\<close>

definition args_tag :: args where
  "args_tag = args_main\<lparr>rev_arg := ''v1''\<rparr>"

definition args_tag_forced :: args where
  "args_tag_forced = args_tag\<lparr>force_reset := True\<rparr>"

definition env_tag_moved :: env where
  "env_tag_moved =
     env_ff\<lparr>remote_refs := Inr [(''HEAD'', shaB), (''refs/heads/main'', shaB), (''refs/tags/v1'', shaB)],
            list_tags := Inr [''v1''],
            rev_parse := (\<lambda>ref opts. if ref = ''v1^{commit}'' then Inr shaA
                                     else Inl (CommandExecutionError ''unknown revision'')),
            fetch_output := [Some (Some ''a'', Some ''bbbbbbb'', None, ''main       ''),
                             Some (None, None, None, ''v1         '')]\<rparr>"

definition env_tag_moved_local :: env where
  "env_tag_moved_local =
     env_tag_moved\<lparr>rev_parse := (\<lambda>ref opts. if ref = ''v1^{commit}'' then Inr shaA
                                             else if ref = shaB @ ''^{commit}'' then Inr shaB
                                             else Inl (CommandExecutionError ''unknown revision''))\<rparr>"

text \<open>
  Credentials in the URL. \<^verbatim>\<open>with_credentials\<close> and \<^verbatim>\<open>redact_credentials\<close> stand for
  \<^verbatim>\<open>salt.utils.url.add_http_basic_auth\<close> and \<^verbatim>\<open>salt.utils.url.redact_http_basic_auth\<close> on
  \<^verbatim>\<open>https\<close> URLs. The clone of scenario C has the remote \<^verbatim>\<open>origin\<close> with the password
  \<^verbatim>\<open>old\<close> in its URL, and the state is given the password \<^verbatim>\<open>new\<close>.
\<close>

definition with_credentials :: "string \<Rightarrow> string option \<Rightarrow> string option \<Rightarrow> string + string" where
  "with_credentials u usr pw =
     (case usr of
        None \<Rightarrow> Inr u
      | Some un \<Rightarrow> Inr (''https://'' @ un @ (case pw of None \<Rightarrow> [] | Some p \<Rightarrow> '':'' @ p) @ [CHR 0x40] @ drop 8 u))"

definition redact_credentials :: "string \<Rightarrow> string" where
  "redact_credentials u =
     (if CHR 0x40 \<in> set u then ''https://<redacted>'' @ dropWhile (\<lambda>c. c \<noteq> CHR 0x40) u else u)"

definition args_creds :: args where
  "args_creds = args_main\<lparr>https_user := Some ''alice'', https_pass := Some ''new''\<rparr>"

definition url_old :: string where
  "url_old = ''https://alice:old'' @ [CHR 0x40] @ ''x/repo.git''"

definition url_redacted :: string where
  "url_redacted = ''https://<redacted>'' @ [CHR 0x40] @ ''x/repo.git''"

definition env_creds :: env where
  "env_creds =
     env_ff\<lparr>add_http_basic_auth := with_credentials, redact_http_basic_auth := redact_credentials,
            remotes := Inr [(''origin'', url_old)]\<rparr>"

definition env_creds_same :: env where
  "env_creds_same = env_creds\<lparr>remotes := Inr [(''origin'', ''https://alice:new'' @ [CHR 0x40] @ ''x/repo.git'')]\<rparr>"

definition env_creds_dry :: env where
  "env_creds_dry = env_creds\<lparr>test := True\<rparr>"

text \<open>
  Three more starting states: the clone of scenario C without a tracking branch, asked
  for a new local branch \<^verbatim>\<open>dev\<close>; and the clone of scenario D, with the old password in
  the URL of its remote, asked for a forced reset, which moves \<^verbatim>\<open>HEAD\<close> to C.
\<close>

definition args_dev :: args where
  "args_dev = args_main\<lparr>branch := Some ''dev''\<rparr>"

definition env_untracked :: env where
  "env_untracked = env_ff\<lparr>rev_parse := (\<lambda>ref opts. Inl (CommandExecutionError ''no upstream configured''))\<rparr>"

definition args_force :: args where
  "args_force = args_creds\<lparr>force_reset := True\<rparr>"

definition env_forced :: env where
  "env_forced =
     env_diverged_local\<lparr>add_http_basic_auth := with_credentials, redact_http_basic_auth := redact_credentials,
                        remotes := Inr [(''origin'', url_old)], new_revision := Inr shaC\<rparr>"

text \<open>
  The clone of scenario D once more, with C in the clone and \<^verbatim>\<open>origin/main\<close> at C, so that
  nothing has to be fetched, asked for a forced reset: \<^verbatim>\<open>HEAD\<close> ends at C. In
  \<^verbatim>\<open>env_reset_dev\<close> the clone also has a local branch \<^verbatim>\<open>dev\<close> at A that tracks
  \<^verbatim>\<open>origin/main\<close>, and the state asks for that branch.
\<close>

definition args_reset :: args where
  "args_reset = args_main\<lparr>force_reset := True\<rparr>"

definition env_reset :: env where
  "env_reset = env_diverged_local\<lparr>new_revision := Inr shaC\<rparr>"

definition args_reset_dev :: args where
  "args_reset_dev = args_reset\<lparr>branch := Some ''dev''\<rparr>"

definition env_reset_dev :: env where
  "env_reset_dev =
     env_reset\<lparr>list_branches := Inr [''main'', ''dev''],
               rev_parse := (\<lambda>ref opts. if ref = ''main'' @ at_upstream \<or> ref = ''dev'' @ at_upstream
                                        then Inr ''origin/main''
                                        else if ref = ''dev^{commit}'' then Inr shaA else Inr shaC)\<rparr>"

section \<open>Predicates of the statements\<close>

text \<open>
  A run that reports success ends with a \<^verbatim>\<open>HEAD\<close> that \<^verbatim>\<open>_revs_equal\<close> accepts for the
  remote revision.
\<close>

definition head_ok :: "env \<Rightarrow> resolved \<Rightarrow> ret \<times> call list \<Rightarrow> bool" where
  "head_ok e rs out \<longleftrightarrow>
     (result (fst out) = Some True \<longrightarrow>
        (\<exists>h. new_revision e = Inr h \<and> revs_equal (Some h) (remote_rev rs) (remote_rev_type rs)))"

text \<open>
  The classification of the desired revision in the words of the specification
  (section 4.1, after the case of \<^verbatim>\<open>HEAD\<close>): the kind, the SHA and the tracking target,
  or \<^verbatim>\<open>RevisionNotFound\<close>.
\<close>

datatype spec_resolution = RevisionNotFound | Classified rev_type string pyval

definition is_hex_sha :: "string \<Rightarrow> bool" where
  "is_hex_sha rv \<longleftrightarrow> length rv \<le> 40 \<and> (\<forall>x \<in> set rv. x \<in> set hexdigits)"

definition classify_spec :: "string \<Rightarrow> string \<Rightarrow> (string \<times> string) list \<Rightarrow> spec_resolution" where
  "classify_spec rem rv refs =
     (case map_of refs (''refs/heads/'' @ rv) of
        Some sha \<Rightarrow> Classified BranchT sha (PyStr (rem @ ''/'' @ rv))
      | None \<Rightarrow>
     (case map_of refs (''refs/tags/'' @ rv @ ''^{}'') of
        Some sha \<Rightarrow> Classified TagT sha (PyBool False)
      | None \<Rightarrow>
     (case map_of refs (''refs/tags/'' @ rv) of
        Some sha \<Rightarrow> Classified TagT sha (PyBool False)
      | None \<Rightarrow>
          if is_hex_sha rv then Classified Sha1 (lower rv) (PyBool False) else RevisionNotFound)))"

text \<open>
  What a dry-run may return: no mutating call; the neutral result exactly when changes
  are predicted; and a success carries the up-to-date comment, or the mark of the
  \<^verbatim>\<open>onlyif\<close>/\<^verbatim>\<open>unless\<close> commands that skipped the state.
\<close>

definition uptodate_prefix :: "args \<Rightarrow> string" where
  "uptodate_prefix a = ''Repository '' @ the_target a @ '' is up-to-date''"

definition dry_ok :: "args \<Rightarrow> ret \<times> call list \<Rightarrow> bool" where
  "dry_ok a out \<longleftrightarrow>
     snd out = [] \<and>
     (result (fst out) = None \<longleftrightarrow> changes (fst out) \<noteq> Map.empty) \<and>
     (result (fst out) = Some True \<longrightarrow>
        skip_watch (fst out) = Some True \<or> prefix (uptodate_prefix a) (comment (fst out)))"

text \<open>
  The calls of a run from a given point on: the calls made before stay in front, and
  no \<^verbatim>\<open>git.remote_set\<close> is among the new ones.
\<close>

definition is_remote_set :: "call \<Rightarrow> bool" where
  "is_remote_set c = (case c of RemoteSet t u r \<Rightarrow> True | _ \<Rightarrow> False)"

definition extends :: "call list \<Rightarrow> call list \<Rightarrow> bool" where
  "extends cs cs' \<longleftrightarrow> (\<exists>more. cs' = cs @ more \<and> (\<forall>c \<in> set more. \<not> is_remote_set c))"

definition grows :: "call list \<Rightarrow> ret \<times> call list \<Rightarrow> bool" where
  "grows cs out \<longleftrightarrow> extends cs (snd out)"

section \<open>Lemmas on the stages of \<^verbatim>\<open>latest\<close>\<close>

lemmas helper_defs = fail_def fail0_def uptodate_def neutral_test_def not_fast_forward_def initial_ret_def
  format_comments_def short_sha_def fmt_def quoted_def py_str_def opt_str_def startswith_def
  isabs_def path_join_def set_change_def add_change_def add_comment_def add_call_def start_def
  exc_msg_def unexpected_def catch_cee_def eff_force_clone_def eff_remote_def eff_bare_def the_target_def
  identity_list_def desired_fetch_url_def redacted_fetch_url_def str_truthy_def mod_run_check_def
  refspecs_def hexdigits_def lower_def lower_char_def is_space_def rstrip_def no_fetch_changes_def
  setdefault_append_def parse_fetch_line_def parse_fetch_def chars_of_def at_upstream_def

lemmas stage_defs = precheck_def resolve_def base_of_def tag_moved_msg_def has_remote_rev_of_def
  fast_forward_of_def upstream_of_def merge_action_of_def local_state_def compare_revs_def inspect_def
  finish_def invoke_def upstream_or_rev_def ref_to_use_def set_upstream_def branch_opts_def
  apply_submodules_def apply_ff_def apply_branch_def apply_reset_def uncommitted_msg_def
  apply_checkout_def fetch_failed_msg_def record_fetch_def the_fetch_def apply_fetch_def
  predicted_ret_def upstream_prediction_def branch_prediction_def predict_def redact_opt_def
  remote_key_def predict_remote_def the_remote_set_def bare_fetch_def update_def set_remote_url_def
  existing_def new_entry_def clone_opts_def the_clone_def clone_result_def clone_finish_def
  clone_upstream_def clone_reset_def clone_checkout_def do_clone_def clone_path_def gitdir_def
  is_repo_def all_remote_refs_def resolved_of_def no_revision_msg_def latest_def

lemma invoke_cases:
  "(\<exists>x. outcome e c = Some x \<and> invoke e c s k = unexpected e (add_call c s) x) \<or>
   (outcome e c = None \<and> invoke e c s k = k (add_call c s))"
  by (cases "outcome e c") (simp_all add: invoke_def)

subsection \<open>An early return of the inspection is a failure\<close>

lemma base_of_fails: "base_of e a bs lr lb = Inl r \<Longrightarrow> result r = Some False \<and> changes r = Map.empty"
  by (auto simp add: base_of_def fail0_def fail_def initial_ret_def split: option.splits if_splits sum.splits exn.splits)

lemma has_remote_rev_of_fails: "has_remote_rev_of e a rs brev tags rems = Inl r \<Longrightarrow> result r = Some False \<and> changes r = Map.empty"
  unfolding has_remote_rev_of_def
  by (auto simp add: fail0_def fail_def initial_ret_def
      split: option.splits if_splits sum.splits exn.splits rev_type.splits)

lemma fast_forward_of_fails: "fast_forward_of e a rs brev has = Inl r \<Longrightarrow> result r = Some False \<and> changes r = Map.empty"
  by (auto simp add: fast_forward_of_def fail0_def fail_def initial_ret_def split: option.splits if_splits sum.splits)

lemma upstream_of_fails: "upstream_of e a bb = Inl r \<Longrightarrow> result r = Some False \<and> changes r = Map.empty"
  by (auto simp add: upstream_of_def fail0_def fail_def initial_ret_def split: option.splits if_splits sum.splits exn.splits)

lemma local_state_fails: "local_state e a rs = Inl r \<Longrightarrow> result r = Some False \<and> changes r = Map.empty"
  unfolding local_state_def
  by (auto simp add: fail0_def fail_def initial_ret_def split: sum.splits if_splits)

lemma compare_revs_fails: "compare_revs e a rs bs ts lr lb = Inl r \<Longrightarrow> result r = Some False \<and> changes r = Map.empty"
  unfolding compare_revs_def
  by (auto simp add: fail0_def fail_def not_fast_forward_def initial_ret_def
      dest: base_of_fails has_remote_rev_of_fails fast_forward_of_fails
      split: sum.splits if_splits prod.splits)

lemma inspect_fails: "inspect e a rs = Inl r \<Longrightarrow> result r = Some False \<and> changes r = Map.empty"
  unfolding inspect_def
  by (auto dest: local_state_fails compare_revs_fails upstream_of_fails split: sum.splits prod.splits)

subsection \<open>Success means that the final revision matches\<close>

lemma head_ok_unexpected [simp]: "head_ok e rs (unexpected e s x)"
  by (simp add: head_ok_def unexpected_def fail_def)

lemma head_ok_fail [simp]: "head_ok e rs (fail r m cs, c)"
  by (simp add: head_ok_def fail_def)

lemma head_ok_invoke: "(\<And>s1. head_ok e rs (k s1)) \<Longrightarrow> head_ok e rs (invoke e c s k)"
  using invoke_cases [of e c s k] by auto

lemma head_ok_finish: "\<not> eff_bare a \<Longrightarrow> remote_rev rs \<noteq> None \<Longrightarrow> head_ok e rs (finish e a rs f s)"
  by (auto simp add: finish_def head_ok_def catch_cee_def unexpected_def fail_def
      split: sum.splits exn.splits option.splits)

lemma head_ok_submodules:
  "\<not> eff_bare a \<Longrightarrow> remote_rev rs \<noteq> None \<Longrightarrow> head_ok e rs (apply_submodules e a rs f s)"
  by (simp add: apply_submodules_def head_ok_invoke head_ok_finish)

lemma head_ok_ff: "\<not> eff_bare a \<Longrightarrow> remote_rev rs \<noteq> None \<Longrightarrow> head_ok e rs (apply_ff e a rs f r ff s)"
  by (auto simp add: apply_ff_def Let_def head_ok_invoke head_ok_submodules split: sum.splits)

lemma head_ok_branch:
  "\<not> eff_bare a \<Longrightarrow> remote_rev rs \<noteq> None \<Longrightarrow> head_ok e rs (apply_branch e a rs f r ff s)"
  by (auto simp add: apply_branch_def head_ok_invoke head_ok_ff split: option.splits)

lemma head_ok_reset:
  "\<not> eff_bare a \<Longrightarrow> remote_rev rs \<noteq> None \<Longrightarrow> head_ok e rs (apply_reset e a rs f r ff s)"
  by (auto simp add: apply_reset_def head_ok_invoke head_ok_branch)

lemma head_ok_checkout:
  "\<not> eff_bare a \<Longrightarrow> remote_rev rs \<noteq> None \<Longrightarrow> head_ok e rs (apply_checkout e a rs f r ff s)"
  by (auto simp add: apply_checkout_def head_ok_invoke head_ok_reset split: option.splits sum.splits)

lemma head_ok_fetch:
  "\<not> eff_bare a \<Longrightarrow> remote_rev rs \<noteq> None \<Longrightarrow> head_ok e rs (apply_fetch e a rs f r s)"
  by (auto simp add: apply_fetch_def Let_def head_ok_checkout not_fast_forward_def
      split: option.splits sum.splits exn.splits)

lemma head_ok_update:
  "\<not> test e \<Longrightarrow> \<not> eff_bare a \<Longrightarrow> remote_rev rs \<noteq> None \<Longrightarrow> head_ok e rs (update e a rs f s)"
  by (auto simp add: update_def head_ok_fetch split: option.splits)

lemma head_ok_set_remote_url:
  "\<not> test e \<Longrightarrow> \<not> eff_bare a \<Longrightarrow> remote_rev rs \<noteq> None \<Longrightarrow> head_ok e rs (set_remote_url e a rs f)"
  by (auto simp add: set_remote_url_def head_ok_update head_ok_invoke split: option.splits sum.splits)

lemma head_ok_existing:
  "\<not> test e \<Longrightarrow> \<not> eff_bare a \<Longrightarrow> remote_rev rs \<noteq> None \<Longrightarrow> head_ok e rs (existing e a rs)"
proof (cases "inspect e a rs")
  case (Inl r)
  then show ?thesis
    by (simp add: existing_def head_ok_def inspect_fails)
next
  case (Inr f)
  assume "\<not> test e" "\<not> eff_bare a" "remote_rev rs \<noteq> None"
  then show ?thesis
    using Inr by (simp add: existing_def head_ok_set_remote_url)
qed

subsection \<open>The run on the fast-forward scenario\<close>

lemma precheck_ff: "precheck env_ff args_main = None"
  by (simp add: env_ff_def args_main_def helper_defs precheck_def)

lemma resolved_ff:
  "resolved_of env_ff args_main =
     \<lparr>rev_eff = ''main'', remote_rev = Some shaB, desired_upstream = PyStr ''origin/main'',
      remote_rev_type = Some BranchT, head_ref = []\<rparr>"
  by (simp add: env_ff_def args_main_def helper_defs resolved_of_def resolve_def all_remote_refs_def)

lemma is_repo_ff: "is_repo env_ff args_main" "\<not> eff_bare args_main"
  by (simp_all add: env_ff_def args_main_def helper_defs is_repo_def gitdir_def)

lemma calls_ff:
  "snd (latest env_ff args_main) =
     [Fetch ''/srv/repo'' ''origin'' False [''refs/heads/*:refs/remotes/origin/*'', ''+refs/tags/*:refs/tags/*''],
      Merge ''/srv/repo'' ''origin/main'' [''--ff-only'']]"
  by (simp add: env_ff_def args_main_def helper_defs stage_defs shaA_def shaB_def Let_def)

lemma result_ff:
  "result (fst (latest env_ff args_main)) = Some True"
  "comment (fst (latest env_ff args_main)) = ''Repository was fast-forwarded to origin/main (bbbbbbb)''"
  "changes (fst (latest env_ff args_main)) ''revision'' = Some (OldNew (PyStr shaA) (PyStr shaB))"
  by (simp_all add: env_ff_def args_main_def helper_defs stage_defs shaA_def shaB_def Let_def)

section \<open>Properties of \<^verbatim>\<open>latest\<close>\<close>

text \<open>
  C10: in a run that is not a dry-run, on an existing repository that is not bare and
  with a remote revision resolved, a result of \<^verbatim>\<open>True\<close> means that the final \<^verbatim>\<open>HEAD\<close>
  (the answer of the last \<^verbatim>\<open>git.revision\<close>) matches the remote revision: it starts with
  it when the revision type is \<^verbatim>\<open>sha1\<close>, and equals it for a branch or a tag. So a run
  that ends on another \<^verbatim>\<open>HEAD\<close> does not report success.
\<close>

theorem latest_success_head_matches:
  assumes "\<not> test e" and "precheck e a = None" and "remote_refs e = Inr refs"
    and "\<not> eff_bare a" and "is_repo e a"
    and "remote_rev (resolved_of e a) = Some r"
    and "result (fst (latest e a)) = Some True"
  shows "\<exists>h. new_revision e = Inr h \<and>
             (if remote_rev_type (resolved_of e a) = Some Sha1 then startswith h r else h = r)"
proof -
  from assms have run: "latest e a = existing e a (resolved_of e a)"
    by (simp add: latest_def)
  from assms have "head_ok e (resolved_of e a) (existing e a (resolved_of e a))"
    by (intro head_ok_existing) simp_all
  with run assms show ?thesis
    by (auto simp add: head_ok_def)
qed

theorem latest_success_head_matches_witness:
  "\<not> test env_ff \<and> precheck env_ff args_main = None \<and> is_repo env_ff args_main \<and>
   remote_rev (resolved_of env_ff args_main) = Some shaB \<and>
   remote_rev_type (resolved_of env_ff args_main) = Some BranchT \<and>
   result (fst (latest env_ff args_main)) = Some True \<and> new_revision env_ff = Inr shaB"
proof -
  have t: "\<not> test env_ff" and refs: "remote_refs env_ff = Inr [(''HEAD'', shaB), (''refs/heads/main'', shaB)]"
    by (simp_all add: env_ff_def)
  have rr: "remote_rev (resolved_of env_ff args_main) = Some shaB"
    by (simp add: resolved_ff)
  show ?thesis
    using latest_success_head_matches [OF t precheck_ff refs is_repo_ff(2) is_repo_ff(1) rr result_ff(1)]
    by (auto simp add: t precheck_ff is_repo_ff resolved_ff result_ff)
qed

subsection \<open>The resolution of the revision\<close>

lemma precheck_bare_head: "precheck e a = None \<Longrightarrow> rev_arg a \<noteq> ''HEAD'' \<Longrightarrow> \<not> eff_bare a"
  by (auto simp add: precheck_def Let_def split: if_splits option.splits sum.splits)

lemma resolve_not_head:
  "rv \<noteq> ''HEAD'' \<Longrightarrow>
   resolve rem rv False refs =
     (case classify_spec rem rv refs of
        Classified k sha t \<Rightarrow>
          \<lparr>rev_eff = (if k = Sha1 then lower rv else rv), remote_rev = Some sha, desired_upstream = t,
           remote_rev_type = Some k, head_ref = []\<rparr>
      | RevisionNotFound \<Rightarrow>
          \<lparr>rev_eff = rv, remote_rev = None, desired_upstream = PyNone, remote_rev_type = None, head_ref = []\<rparr>)"
  by (simp add: resolve_def classify_spec_def is_hex_sha_def Let_def split: option.splits)

text \<open>
  C6, as stated, fails for the default revision: with \<^verbatim>\<open>rev = HEAD\<close> the order of the
  claim finds no branch, no tag and no hexadecimal string, and ends in
  revision-not-found, whereas \<^verbatim>\<open>latest\<close> takes the \<^verbatim>\<open>HEAD\<close> of the remote, with the type
  \<^verbatim>\<open>sha1\<close> and no tracking target at all (\<^verbatim>\<open>None\<close>, not \<^verbatim>\<open>False\<close>), and succeeds.
\<close>

theorem classification_head_counterexample:
  "\<not> eff_bare args_head \<and> rev_arg args_head = ''HEAD'' \<and>
   classify_spec (eff_remote args_head) (rev_arg args_head) (all_remote_refs env_ff) = RevisionNotFound \<and>
   resolved_of env_ff args_head =
     \<lparr>rev_eff = ''HEAD'', remote_rev = Some shaB, desired_upstream = PyNone,
      remote_rev_type = Some Sha1, head_ref = ''origin/HEAD''\<rparr> \<and>
   result (fst (latest env_ff args_head)) = Some True"
  by (simp add: env_ff_def args_head_def args_main_def helper_defs stage_defs classify_spec_def is_hex_sha_def
      shaA_def shaB_def Let_def)

text \<open>
  C6 (amended): for every invocation that is not bare and whose revision is not the
  default \<^verbatim>\<open>HEAD\<close>, the revision is classified against the refs of the remote in this
  order: \<^verbatim>\<open>refs/heads/<rev>\<close> gives a branch tracked as \<^verbatim>\<open><remote>/<rev>\<close>; else
  \<^verbatim>\<open>refs/tags/<rev>^{}\<close> gives a tag with tracking \<^verbatim>\<open>False\<close>; else \<^verbatim>\<open>refs/tags/<rev>\<close> gives
  a tag with tracking \<^verbatim>\<open>False\<close>; else a hexadecimal string of at most 40 characters is a
  SHA1, lower-cased, with tracking \<^verbatim>\<open>False\<close>; else the run fails with the
  revision-not-found message and makes no call.
\<close>

theorem classification_order:
  assumes "\<not> eff_bare a" and "rev_arg a \<noteq> ''HEAD''"
  shows "case classify_spec (eff_remote a) (rev_arg a) (all_remote_refs e) of
           Classified k sha t \<Rightarrow>
             resolved_of e a =
               \<lparr>rev_eff = (if k = Sha1 then lower (rev_arg a) else rev_arg a), remote_rev = Some sha,
                desired_upstream = t, remote_rev_type = Some k, head_ref = []\<rparr>
         | RevisionNotFound \<Rightarrow>
             remote_rev (resolved_of e a) = None \<and>
             (precheck e a = None \<and> (\<exists>refs. remote_refs e = Inr refs) \<longrightarrow>
                latest e a = (fail0 a (no_revision_msg (rev_arg a)), []))"
proof (cases "classify_spec (eff_remote a) (rev_arg a) (all_remote_refs e)")
  case RevisionNotFound
  with assms have rs: "resolved_of e a =
      \<lparr>rev_eff = rev_arg a, remote_rev = None, desired_upstream = PyNone, remote_rev_type = None, head_ref = []\<rparr>"
    by (simp add: resolved_of_def resolve_not_head)
  with assms RevisionNotFound show ?thesis
    by (auto simp add: latest_def)
next
  case (Classified k sha t)
  with assms show ?thesis
    by (simp add: resolved_of_def resolve_not_head)
qed

theorem classification_order_witness:
  "\<not> eff_bare args_main \<and> rev_arg args_main \<noteq> ''HEAD'' \<and>
   classify_spec (eff_remote args_main) (rev_arg args_main) (all_remote_refs env_ff) =
     Classified BranchT shaB (PyStr ''origin/main'') \<and>
   resolved_of env_ff args_main =
     \<lparr>rev_eff = ''main'', remote_rev = Some shaB, desired_upstream = PyStr ''origin/main'',
      remote_rev_type = Some BranchT, head_ref = []\<rparr> \<and>
   \<not> eff_bare args_nosuch \<and> rev_arg args_nosuch \<noteq> ''HEAD'' \<and>
   classify_spec (eff_remote args_nosuch) (rev_arg args_nosuch) (all_remote_refs env_ff) = RevisionNotFound \<and>
   precheck env_ff args_nosuch = None \<and>
   latest env_ff args_nosuch = (fail0 args_nosuch (no_revision_msg ''release''), [])"
proof -
  have m: "\<not> eff_bare args_main" "rev_arg args_main \<noteq> ''HEAD''"
    by (simp_all add: args_main_def eff_bare_def)
  have n: "\<not> eff_bare args_nosuch" "rev_arg args_nosuch \<noteq> ''HEAD''" "rev_arg args_nosuch = ''release''"
    by (simp_all add: args_nosuch_def args_main_def eff_bare_def)
  have cm: "classify_spec (eff_remote args_main) (rev_arg args_main) (all_remote_refs env_ff) =
      Classified BranchT shaB (PyStr ''origin/main'')"
    by (simp add: classify_spec_def args_main_def env_ff_def eff_remote_def all_remote_refs_def)
  have cn: "classify_spec (eff_remote args_nosuch) (rev_arg args_nosuch) (all_remote_refs env_ff) =
      RevisionNotFound"
    by (simp add: classify_spec_def args_nosuch_def args_main_def env_ff_def eff_remote_def all_remote_refs_def
        is_hex_sha_def hexdigits_def)
  have p: "precheck env_ff args_nosuch = None"
    by (simp add: env_ff_def args_nosuch_def args_main_def helper_defs precheck_def)
  have r: "\<exists>refs. remote_refs env_ff = Inr refs"
    by (simp add: env_ff_def)
  have rm: "resolved_of env_ff args_main =
      \<lparr>rev_eff = ''main'', remote_rev = Some shaB, desired_upstream = PyStr ''origin/main'',
       remote_rev_type = Some BranchT, head_ref = []\<rparr>"
    using classification_order [OF m, of env_ff] by (simp add: cm) (simp add: args_main_def)
  have ln: "latest env_ff args_nosuch = (fail0 args_nosuch (no_revision_msg ''release''), [])"
    using classification_order [OF n(1) n(2), of env_ff] p r by (simp add: cn) (simp add: n(3))
  show ?thesis
    using m n(1) n(2) cm cn p rm ln by simp
qed

text \<open>
  C7, as stated, fails for a revision that is a hexadecimal string: against a
  remote without refs, \<^verbatim>\<open>rev = abc123\<close> is taken as a SHA1, there is no
  revision-not-found failure, and the repository is cloned before the run fails
  elsewhere.
\<close>

theorem empty_remote_hex_counterexample:
  "precheck env_empty_remote args_hex = None \<and> remote_refs env_empty_remote = Inr [] \<and>
   rev_arg args_hex \<noteq> ''HEAD'' \<and>
   snd (latest env_empty_remote args_hex) =
     [Clone ''/srv/repo'' ''https://x/repo.git'' [], Reset ''/srv/repo'' [''--hard'', ''abc123'']] \<and>
   comment (fst (latest env_empty_remote args_hex)) \<noteq> no_revision_msg ''abc123''"
  by (simp add: env_empty_remote_def env_ff_def args_hex_def args_main_def helper_defs stage_defs Let_def)

lemma local_state_empty_remote:
  "remote_rev rs = None \<Longrightarrow> revision e = Inr h \<Longrightarrow> \<exists>r. local_state e a rs = Inl r"
  by (simp add: local_state_def catch_cee_def split: sum.splits exn.splits)

lemma inspect_empty_remote:
  "remote_rev rs = None \<Longrightarrow> revision e = Inr h \<Longrightarrow> \<exists>r. inspect e a rs = Inl r"
  using local_state_empty_remote [of rs e h a] by (auto simp add: inspect_def)

text \<open>
  C7 (amended): against a remote that advertises no refs, (1) the revision \<^verbatim>\<open>HEAD\<close>
  resolves to no remote revision and the run goes on into the update or the clone;
  (2) a revision other than \<^verbatim>\<open>HEAD\<close> that is not a hexadecimal string of at most 40
  characters makes \<^verbatim>\<open>latest\<close> fail with the revision-not-found message before any
  mutating call (a hexadecimal string is taken as a literal SHA1 instead); (3) with
  the revision \<^verbatim>\<open>HEAD\<close>, where no remote revision is resolved, the update of an existing
  local repository that has a revision fails without any mutating call.
\<close>

theorem empty_remote_handling:
  assumes "precheck e a = None" and "remote_refs e = Inr []"
  shows "(rev_arg a = ''HEAD'' \<longrightarrow>
            remote_rev (resolved_of e a) = None \<and>
            latest e a = (if is_repo e a then existing e a (resolved_of e a)
                          else clone_path e a (resolved_of e a))) \<and>
         (rev_arg a \<noteq> ''HEAD'' \<and> \<not> is_hex_sha (rev_arg a) \<longrightarrow>
            latest e a = (fail0 a (no_revision_msg (rev_arg a)), [])) \<and>
         (rev_arg a = ''HEAD'' \<and> is_repo e a \<and> (\<exists>h. revision e = Inr h) \<longrightarrow>
            result (fst (latest e a)) = Some False \<and> snd (latest e a) = [])"
proof (intro conjI impI)
  assume h: "rev_arg a = ''HEAD''"
  with assms show none: "remote_rev (resolved_of e a) = None"
    by (simp add: resolved_of_def resolve_def all_remote_refs_def Let_def)
  from assms h
  show "latest e a = (if is_repo e a then existing e a (resolved_of e a) else clone_path e a (resolved_of e a))"
    by (simp add: latest_def resolved_of_def resolve_def all_remote_refs_def Let_def)
next
  assume h: "rev_arg a \<noteq> ''HEAD'' \<and> \<not> is_hex_sha (rev_arg a)"
  with assms have nb: "\<not> eff_bare a"
    by (simp add: precheck_bare_head)
  from h have "classify_spec (eff_remote a) (rev_arg a) [] = RevisionNotFound"
    by (simp add: classify_spec_def)
  with h nb assms have "resolved_of e a =
      \<lparr>rev_eff = rev_arg a, remote_rev = None, desired_upstream = PyNone, remote_rev_type = None, head_ref = []\<rparr>"
    by (simp add: resolved_of_def resolve_not_head all_remote_refs_def)
  with h nb assms show "latest e a = (fail0 a (no_revision_msg (rev_arg a)), [])"
    by (simp add: latest_def)
next
  assume h: "rev_arg a = ''HEAD'' \<and> is_repo e a \<and> (\<exists>h. revision e = Inr h)"
  with assms have none: "remote_rev (resolved_of e a) = None"
    by (simp add: resolved_of_def resolve_def all_remote_refs_def Let_def)
  from h obtain hd where "revision e = Inr hd"
    by blast
  with none obtain r where r: "inspect e a (resolved_of e a) = Inl r"
    using inspect_empty_remote by blast
  from assms h none have "latest e a = existing e a (resolved_of e a)"
    by (simp add: latest_def resolved_of_def resolve_def all_remote_refs_def Let_def)
  with r have l: "latest e a = (r, [])"
    by (simp add: existing_def)
  from r have "result r = Some False"
    using inspect_fails by blast
  with l show "result (fst (latest e a)) = Some False" and "snd (latest e a) = []"
    by simp_all
qed

theorem empty_remote_handling_witness:
  "precheck env_emptied args_head = None \<and> remote_refs env_emptied = Inr [] \<and>
   rev_arg args_head = ''HEAD'' \<and> is_repo env_emptied args_head \<and> revision env_emptied = Inr shaA \<and>
   remote_rev (resolved_of env_emptied args_head) = None \<and>
   result (fst (latest env_emptied args_head)) = Some False \<and> snd (latest env_emptied args_head) = [] \<and>
   precheck env_emptied args_nosuch = None \<and> rev_arg args_nosuch \<noteq> ''HEAD'' \<and>
   \<not> is_hex_sha (rev_arg args_nosuch) \<and>
   latest env_emptied args_nosuch = (fail0 args_nosuch (no_revision_msg ''release''), [])"
proof -
  have p: "precheck env_emptied args_head = None" "precheck env_emptied args_nosuch = None"
    by (simp_all add: env_emptied_def env_ff_def args_head_def args_nosuch_def args_main_def helper_defs
        precheck_def)
  have r: "remote_refs env_emptied = Inr []" "revision env_emptied = Inr shaA"
    by (simp_all add: env_emptied_def env_ff_def)
  have h: "rev_arg args_head = ''HEAD''" "is_repo env_emptied args_head"
    by (simp_all add: env_emptied_def env_ff_def args_head_def args_main_def helper_defs is_repo_def gitdir_def)
  have n: "rev_arg args_nosuch \<noteq> ''HEAD''" "\<not> is_hex_sha (rev_arg args_nosuch)"
    "rev_arg args_nosuch = ''release''"
    by (simp_all add: args_nosuch_def args_main_def is_hex_sha_def hexdigits_def)
  have a: "remote_rev (resolved_of env_emptied args_head) = None"
    "result (fst (latest env_emptied args_head)) = Some False" "snd (latest env_emptied args_head) = []"
    using empty_remote_handling [OF p(1) r(1)] h r(2) by blast+
  have b: "latest env_emptied args_nosuch = (fail0 args_nosuch (no_revision_msg (rev_arg args_nosuch)), [])"
    using empty_remote_handling [OF p(2) r(1)] n(1) n(2) by blast
  show ?thesis
    using p r h n(1) n(2) a b by (simp add: n(3))
qed

subsection \<open>A bare repository that exists\<close>

lemma compare_revs_bare: "eff_bare a \<Longrightarrow> \<exists>r. compare_revs e a rs bs ts lr lb = Inl r"
  by (simp add: compare_revs_def split: sum.splits prod.splits)

lemma inspect_bare: "eff_bare a \<Longrightarrow> \<exists>r. inspect e a rs = Inl r"
proof (cases "local_state e a rs")
  case (Inl r)
  then show ?thesis by (simp add: inspect_def)
next
  case (Inr v)
  assume b: "eff_bare a"
  obtain bs ts lr lb where v: "v = (bs, ts, lr, lb)"
    by (cases v) auto
  from b obtain r where "compare_revs e a rs bs ts lr lb = Inl r"
    using compare_revs_bare by blast
  with Inr v show ?thesis by (simp add: inspect_def)
qed

lemma latest_bare_existing_fails:
  assumes "precheck e a = None" and "remote_refs e = Inr refs" and "eff_bare a" and "is_repo e a"
  shows "result (fst (latest e a)) = Some False \<and> snd (latest e a) = []"
proof -
  from assms(3) obtain r where r: "inspect e a (resolved_of e a) = Inl r"
    using inspect_bare by blast
  from assms have "latest e a = existing e a (resolved_of e a)"
    by (simp add: latest_def)
  with r have "latest e a = (r, [])"
    by (simp add: existing_def)
  with inspect_fails [OF r] show ?thesis by simp
qed

text \<open>
  C4 fails on the code for a bare repository: the second run of \<^verbatim>\<open>latest\<close> with
  \<^verbatim>\<open>bare=True\<close>, on the bare repository that the first run cloned from a remote with
  commits, takes \<^verbatim>\<open>remote_rev = None\<close> (set for a bare repository at line 526) for an empty
  remote and fails at line 596, where the claim wants no changes and the up-to-date
  comment.
\<close>

theorem latest_bare_second_run:
  "precheck env_bare args_bare = None \<and> is_repo env_bare args_bare \<and> eff_bare args_bare \<and>
   revision env_bare = Inr shaB \<and>
   latest env_bare args_bare =
     (fail0 args_bare ''Remote repository is empty, cannot update from a non-empty to an empty repository'', [])"
  by (simp add: env_bare_def env_ff_def args_bare_def args_main_def helper_defs stage_defs Let_def)

subsection \<open>The dry-run\<close>

lemma result_set_change [simp]: "result (set_change k v r) = result r"
  by (simp add: set_change_def)

lemma skip_watch_set_change [simp]: "skip_watch (set_change k v r) = skip_watch r"
  by (simp add: set_change_def)

lemma changes_set_change_nonempty [simp]: "changes (set_change k v r) \<noteq> Map.empty"
  by (simp add: set_change_def)


lemma dry_ok_fail0 [simp]: "dry_ok a (fail0 a m, [])"
  by (simp add: dry_ok_def fail0_def fail_def initial_ret_def)

lemma dry_ok_unexpected_start [simp]: "dry_ok a (unexpected e (start a) x)"
  by (simp add: dry_ok_def unexpected_def start_def fail_def initial_ret_def)



lemma start_simps [simp]:
  "calls (start a) = []" "comments (start a) = []" "ret_of (start a) = initial_ret (name a)"
  by (simp_all add: start_def)

lemma initial_ret_simps [simp]:
  "result (initial_ret n) = Some True" "changes (initial_ret n) = Map.empty"
  "skip_watch (initial_ret n) = None"
  by (simp_all add: initial_ret_def)













subsection \<open>The calls of the real run\<close>

lemma calls_simps [simp]:
  "calls (add_change k v s) = calls s" "calls (add_comment c s) = calls s"
  "calls (add_call x s) = calls s @ [x]" "calls (record_fetch e s) = calls s"
  by (simp_all add: add_change_def add_comment_def add_call_def record_fetch_def)

lemma extends_refl [simp]: "extends cs cs"
  by (simp add: extends_def)

lemma extends_call: "extends cs cs' \<Longrightarrow> \<not> is_remote_set c \<Longrightarrow> extends cs (cs' @ [c])"
  by (auto simp add: extends_def)

lemma extends_mem: "extends cs cs' \<Longrightarrow> c \<in> set cs \<Longrightarrow> c \<in> set cs'"
  by (auto simp add: extends_def)

lemma extends_remote_set: "extends cs cs' \<Longrightarrow> is_remote_set c \<Longrightarrow> c \<in> set cs' \<Longrightarrow> c \<in> set cs"
  by (auto simp add: extends_def)

lemma grows_here: "extends cs cs' \<Longrightarrow> grows cs (r, cs')"
  by (simp add: grows_def)

lemma grows_unexpected: "extends cs (calls s) \<Longrightarrow> grows cs (unexpected e s x)"
  by (simp add: grows_def unexpected_def)

lemma grows_invoke:
  assumes "\<not> is_remote_set c" and "extends cs (calls s)"
    and "\<And>s1. extends cs (calls s1) \<Longrightarrow> grows cs (k s1)"
  shows "grows cs (invoke e c s k)"
proof -
  from assms(1,2) have x: "extends cs (calls (add_call c s))"
    by (simp add: extends_call)
  from invoke_cases [of e c s k] show ?thesis
    using grows_unexpected [OF x] assms(3) [OF x] by auto
qed

lemma not_remote_set [simp]:
  "\<not> is_remote_set (Fetch t r fo sp)" "\<not> is_remote_set (Checkout t rv fo opts)"
  "\<not> is_remote_set (Reset t opts)" "\<not> is_remote_set (Merge t rv opts)"
  "\<not> is_remote_set (Branch t b opts)" "\<not> is_remote_set (Submodule t c opts)"
  "\<not> is_remote_set (the_fetch a)"
  by (simp_all add: is_remote_set_def the_fetch_def)

lemma grows_finish: "extends cs (calls s) \<Longrightarrow> grows cs (finish e a rs f s)"
  by (simp add: finish_def grows_here grows_unexpected split: sum.splits)

lemma grows_submodules: "extends cs (calls s) \<Longrightarrow> grows cs (apply_submodules e a rs f s)"
  by (simp add: apply_submodules_def grows_invoke grows_finish)

lemma grows_ff: "extends cs (calls s) \<Longrightarrow> grows cs (apply_ff e a rs f r ff s)"
  by (simp add: apply_ff_def Let_def grows_invoke grows_submodules grows_unexpected split: sum.splits)

lemma grows_branch: "extends cs (calls s) \<Longrightarrow> grows cs (apply_branch e a rs f r ff s)"
  by (simp add: apply_branch_def grows_invoke grows_ff split: option.splits prod.splits)

lemma grows_reset: "extends cs (calls s) \<Longrightarrow> grows cs (apply_reset e a rs f r ff s)"
  by (simp add: apply_reset_def grows_invoke grows_branch)

lemma grows_checkout: "extends cs (calls s) \<Longrightarrow> grows cs (apply_checkout e a rs f r ff s)"
  by (simp add: apply_checkout_def grows_invoke grows_reset grows_unexpected grows_here
      split: option.splits sum.splits)

lemma grows_fetch: "extends cs (calls s) \<Longrightarrow> grows cs (apply_fetch e a rs f r s)"
  by (simp add: apply_fetch_def Let_def grows_checkout grows_unexpected grows_here extends_call
      split: option.splits sum.splits exn.splits)

lemma grows_update: "\<not> test e \<Longrightarrow> extends cs (calls s) \<Longrightarrow> grows cs (update e a rs f s)"
  by (simp add: update_def bare_fetch_def grows_fetch grows_finish grows_invoke split: option.splits)

subsection \<open>An update that is not a fast-forward\<close>







subsection \<open>A tag that moved on the remote\<close>

text \<open>
  Lines 684 to 719, reached when the commit of the remote SHA is in the local
  repository: a local tag whose SHA differs from the remote one makes \<^verbatim>\<open>latest\<close> fail at
  once unless \<^verbatim>\<open>force_reset\<close> is set.
\<close>

lemma moved_tag_local_refused:
  assumes "precheck e a = None" and "remote_refs e = Inr refs" and "is_repo e a" and "\<not> eff_bare a"
    and "rs = resolved_of e a" and "remote_rev_type rs = Some TagT" and "remote_rev rs = Some r"
    and "local_state e a rs = Inr (bs, ts, lr, lb)" and "rev_eff rs \<in> set ts"
    and "base_of e a bs lr lb = Inr (brev, bb)" and "remotes e = Inr rems"
    and "rev_parse e (r @ ''^{commit}'') [] = Inr v"
    and "catch_cee (rev_parse e (rev_eff rs @ ''^{commit}'') []) = Inr lt" and "lt \<noteq> Some r"
    and "\<not> force_reset a"
  shows "latest e a = (fail0 a (tag_moved_msg (rev_eff rs) r lt), [])"
proof -
  from assms have run: "latest e a = existing e a rs"
    by (simp add: latest_def)
  from assms have "has_remote_rev_of e a rs brev ts rems = Inl (fail0 a (tag_moved_msg (rev_eff rs) r lt))"
    by (simp add: has_remote_rev_of_def)
  with assms have "inspect e a rs = Inl (fail0 a (tag_moved_msg (rev_eff rs) r lt))"
    by (simp add: inspect_def compare_revs_def)
  with run show ?thesis
    by (simp add: existing_def)
qed

lemmas tag_inputs = env_tag_moved_local_def env_tag_moved_def env_ff_def args_tag_forced_def args_tag_def
  args_main_def shaA_def shaB_def

text \<open>
  C8 fails on the code when the clone does not have the commit of the moved tag yet.
  The clone is at A with the local tag \<^verbatim>\<open>v1\<close> at A, the remote has moved \<^verbatim>\<open>v1\<close> to B, and
  \<^verbatim>\<open>force_reset\<close> is false. The two SHAs of the tag are compared only after
  \<^verbatim>\<open>git rev-parse\<close> has found the remote SHA in the clone (lines 648 to 657), so here
  \<^verbatim>\<open>latest\<close> fetches, resets to the tag and reports success with the revision moved from
  A to B, where the claim wants the failure that names the two SHAs and no mutation.
  With B already in the clone the same call is refused, as the comment of lines 699 to
  707 says it must be; with \<^verbatim>\<open>force_reset\<close> true it fetches and resets to the tag.
\<close>

theorem moved_tag_followed_without_force_reset:
  "precheck env_tag_moved args_tag = None \<and> is_repo env_tag_moved args_tag \<and> \<not> eff_bare args_tag \<and>
   \<not> force_reset args_tag \<and> \<not> test env_tag_moved \<and>
   remote_rev_type (resolved_of env_tag_moved args_tag) = Some TagT \<and>
   remote_rev (resolved_of env_tag_moved args_tag) = Some shaB \<and>
   list_tags env_tag_moved = Inr [''v1''] \<and> rev_parse env_tag_moved ''v1^{commit}'' [] = Inr shaA \<and>
   rev_parse env_tag_moved (shaB @ ''^{commit}'') [] = Inl (CommandExecutionError ''unknown revision'') \<and>
   result (fst (latest env_tag_moved args_tag)) = Some True \<and>
   changes (fst (latest env_tag_moved args_tag)) ''revision'' = Some (OldNew (PyStr shaA) (PyStr shaB)) \<and>
   snd (latest env_tag_moved args_tag) =
     [Fetch ''/srv/repo'' ''origin'' False [''refs/heads/*:refs/remotes/origin/*'', ''+refs/tags/*:refs/tags/*''],
      Reset ''/srv/repo'' [''--hard'', ''v1'']] \<and>
   rev_parse env_tag_moved_local (shaB @ ''^{commit}'') [] = Inr shaB \<and>
   latest env_tag_moved_local args_tag = (fail0 args_tag (tag_moved_msg ''v1'' shaB (Some shaA)), []) \<and>
   force_reset args_tag_forced \<and>
   result (fst (latest env_tag_moved_local args_tag_forced)) = Some True \<and>
   changes (fst (latest env_tag_moved_local args_tag_forced)) ''revision'' =
     Some (OldNew (PyStr shaA) (PyStr shaB)) \<and>
   snd (latest env_tag_moved_local args_tag_forced) =
     [Fetch ''/srv/repo'' ''origin'' False [''refs/heads/*:refs/remotes/origin/*'', ''+refs/tags/*:refs/tags/*''],
      Reset ''/srv/repo'' [''--hard'', ''v1'']]"
  by (simp add: tag_inputs helper_defs stage_defs Let_def)

subsection \<open>The URL of the remote\<close>

lemmas changes_simps = add_change_def add_comment_def add_call_def set_change_def fail_def uptodate_def
  not_fast_forward_def unexpected_def

lemma keeps_record_fetch:
  "k \<noteq> ''fetch'' \<Longrightarrow> changes (ret_of (record_fetch e s)) k = changes (ret_of s) k"
  by (simp add: record_fetch_def changes_simps)

lemma ret_of_add_call [simp]: "ret_of (add_call c s) = ret_of s"
  by (simp add: add_call_def)

lemma keeps_unexpected: "changes (fst (unexpected e s x)) k = changes (ret_of s) k"
  by (simp add: changes_simps)

lemma keeps_invoke:
  assumes "\<And>s1. ret_of s1 = ret_of s \<Longrightarrow> changes (fst (k' s1)) key = changes (ret_of s) key"
  shows "changes (fst (invoke e c s k')) key = changes (ret_of s) key"
  using invoke_cases [of e c s k'] assms [of "add_call c s"]
  by (auto simp add: keeps_unexpected)

lemma keeps_finish:
  "k \<noteq> ''revision'' \<Longrightarrow> changes (fst (finish e a rs f s)) k = changes (ret_of s) k"
  by (simp add: finish_def changes_simps split: sum.splits)

lemma keeps_submodules:
  "k \<noteq> ''revision'' \<Longrightarrow> changes (fst (apply_submodules e a rs f s)) k = changes (ret_of s) k"
  by (simp add: apply_submodules_def keeps_invoke keeps_finish)

lemma keeps_ff:
  "k \<noteq> ''revision'' \<Longrightarrow> changes (fst (apply_ff e a rs f r ff s)) k = changes (ret_of s) k"
  by (simp add: apply_ff_def Let_def keeps_invoke keeps_submodules keeps_unexpected add_comment_def
      split: sum.splits)

lemma keeps_branch:
  "k \<noteq> ''revision'' \<Longrightarrow> k \<noteq> ''upstream'' \<Longrightarrow>
   changes (fst (apply_branch e a rs f r ff s)) k = changes (ret_of s) k"
  by (simp add: apply_branch_def keeps_invoke keeps_ff add_comment_def add_change_def set_change_def
      split: option.splits prod.splits)

lemma keeps_reset:
  "k \<noteq> ''revision'' \<Longrightarrow> k \<noteq> ''upstream'' \<Longrightarrow> k \<noteq> ''forced update'' \<Longrightarrow>
   changes (fst (apply_reset e a rs f r ff s)) k = changes (ret_of s) k"
  by (simp add: apply_reset_def keeps_invoke keeps_branch add_comment_def add_change_def set_change_def)

lemma keeps_checkout:
  "k \<noteq> ''revision'' \<Longrightarrow> k \<noteq> ''upstream'' \<Longrightarrow> k \<noteq> ''forced update'' \<Longrightarrow> k \<noteq> ''local branch'' \<Longrightarrow>
   changes (fst (apply_checkout e a rs f r ff s)) k = changes (ret_of s) k"
  by (simp add: apply_checkout_def keeps_invoke keeps_reset keeps_unexpected add_change_def set_change_def
      fail_def split: option.splits sum.splits)

lemma keeps_fetch:
  "k \<noteq> ''revision'' \<Longrightarrow> k \<noteq> ''upstream'' \<Longrightarrow> k \<noteq> ''forced update'' \<Longrightarrow> k \<noteq> ''local branch'' \<Longrightarrow>
   k \<noteq> ''fetch'' \<Longrightarrow> changes (fst (apply_fetch e a rs f r s)) k = changes (ret_of s) k"
  by (simp add: apply_fetch_def Let_def keeps_checkout keeps_unexpected keeps_record_fetch fail_def
      not_fast_forward_def split: option.splits sum.splits exn.splits)

lemma remote_key_other [simp]:
  "remote_key a \<noteq> ''revision''" "remote_key a \<noteq> ''upstream''" "remote_key a \<noteq> ''forced update''"
  "remote_key a \<noteq> ''local branch''" "remote_key a \<noteq> ''fetch''" "remote_key a \<noteq> ''hard reset''"
  by (simp_all add: remote_key_def)

lemma keeps_predict: "changes (fst (predict e a rs f r s)) (remote_key a) = changes (ret_of s) (remote_key a)"
  by (simp add: predict_def Let_def predicted_ret_def branch_prediction_def neutral_test_def uptodate_def
      set_change_def split: option.splits)

lemma keeps_update:
  "remote_rev rs = Some r \<Longrightarrow>
   changes (fst (update e a rs f s)) (remote_key a) = changes (ret_of s) (remote_key a)"
  by (simp add: update_def keeps_fetch keeps_predict)

lemma grows_predict: "extends cs (calls s) \<Longrightarrow> grows cs (predict e a rs f r s)"
  by (simp add: predict_def Let_def grows_def)

lemma grows_update_some: "remote_rev rs = Some r \<Longrightarrow> extends cs (calls s) \<Longrightarrow> grows cs (update e a rs f s)"
  by (simp add: update_def grows_fetch grows_predict)

lemma inspect_fetch_url:
  "inspect e a rs = Inr f \<Longrightarrow> remotes e = Inr rems \<Longrightarrow> fetch_url f = map_of rems (eff_remote a)"
  by (auto simp add: inspect_def compare_revs_def split: sum.splits prod.splits if_splits)

lemma calls_after_remote_set:
  assumes "grows [c] out"
  shows "\<exists>more. snd out = c # more \<and> (\<forall>x \<in> set more. \<not> is_remote_set x)"
  using assms by (auto simp add: grows_def extends_def)

lemma set_remote_url_same:
  assumes "remote_rev rs = Some r" and "Some (desired_fetch_url e a) = fetch_url f"
  shows "(\<forall>c \<in> set (snd (set_remote_url e a rs f)). \<not> is_remote_set c) \<and>
         changes (fst (set_remote_url e a rs f)) (remote_key a) = None"
proof -
  from assms have eq: "set_remote_url e a rs f = update e a rs f (start a)"
    by (simp add: set_remote_url_def)
  have "grows [] (update e a rs f (start a))"
    using assms(1) by (simp add: grows_update_some)
  then have "\<forall>c \<in> set (snd (update e a rs f (start a))). \<not> is_remote_set c"
    by (auto simp add: grows_def extends_def)
  moreover have "changes (fst (update e a rs f (start a))) (remote_key a) = None"
    using assms(1) by (simp add: keeps_update)
  ultimately show ?thesis
    using eq by simp
qed

lemma set_remote_url_differs:
  assumes "remote_rev rs = Some r" and "Some (desired_fetch_url e a) \<noteq> fetch_url f" and "\<not> test e"
  shows "(\<exists>more. snd (set_remote_url e a rs f) = the_remote_set a # more \<and>
                 (\<forall>x \<in> set more. \<not> is_remote_set x)) \<and>
         (outcome e (the_remote_set a) = None \<and> redact_opt e (fetch_url f) = Inr old \<longrightarrow>
            changes (fst (set_remote_url e a rs f)) (remote_key a) =
              Some (OldNew old (PyStr (redacted_fetch_url e a))))"
proof -
  let ?s1 = "add_call (the_remote_set a) (start a)"
  have x: "extends [the_remote_set a] (calls ?s1)"
    by simp
  have "grows [the_remote_set a] (set_remote_url e a rs f)"
  proof (cases "outcome e (the_remote_set a)")
    case (Some x)
    with assms show ?thesis
      by (simp add: set_remote_url_def invoke_def grows_def unexpected_def)
  next
    case None
    with assms show ?thesis
      by (cases "redact_opt e (fetch_url f)")
        (simp_all add: set_remote_url_def invoke_def grows_unexpected grows_update_some)
  qed
  then have "\<exists>more. snd (set_remote_url e a rs f) = the_remote_set a # more \<and>
                    (\<forall>x \<in> set more. \<not> is_remote_set x)"
    by (rule calls_after_remote_set)
  moreover have "outcome e (the_remote_set a) = None \<and> redact_opt e (fetch_url f) = Inr old \<longrightarrow>
      changes (fst (set_remote_url e a rs f)) (remote_key a) = Some (OldNew old (PyStr (redacted_fetch_url e a)))"
    using assms by (simp add: set_remote_url_def invoke_def keeps_update add_comment_def add_change_def
        set_change_def)
  ultimately show ?thesis
    by blast
qed

lemma set_remote_url_predicted:
  assumes "remote_rev rs = Some r" and "Some (desired_fetch_url e a) \<noteq> fetch_url f" and "test e"
    and "redact_opt e (fetch_url f) = Inr old"
  shows "snd (set_remote_url e a rs f) = [] \<and>
         changes (fst (set_remote_url e a rs f)) (remote_key a) =
           Some (OldNew old (PyStr (redacted_fetch_url e a)))"
  using assms
  by (simp add: set_remote_url_def predict_remote_def Let_def predicted_ret_def neutral_test_def
      uptodate_def set_change_def)

lemmas creds_inputs = env_creds_def env_creds_same_def env_creds_dry_def args_creds_def url_old_def
  url_redacted_def with_credentials_def redact_credentials_def env_ff_def args_main_def shaA_def shaB_def

text \<open>
  C5, as stated, fails on the comparison: the fetch URL that \<^verbatim>\<open>git.remotes\<close> returns
  with \<^verbatim>\<open>redact_auth=False\<close> is compared with the desired URL that carries the
  credentials of the state. Here the two URLs differ in the password only, their
  redacted forms are equal, and \<^verbatim>\<open>latest\<close> sets the URL of the remote and records a
  change whose old and new values are the same.
\<close>

theorem remote_url_credentials_counterexample:
  "precheck env_creds args_creds = None \<and> is_repo env_creds args_creds \<and> \<not> eff_bare args_creds \<and>
   remote_rev (resolved_of env_creds args_creds) = Some shaB \<and> \<not> test env_creds \<and>
   remotes env_creds = Inr [(''origin'', url_old)] \<and>
   redact_http_basic_auth env_creds url_old =
     redact_http_basic_auth env_creds (desired_fetch_url env_creds args_creds) \<and>
   hd (snd (latest env_creds args_creds)) = RemoteSet ''/srv/repo'' ''https://x/repo.git'' ''origin'' \<and>
   changes (fst (latest env_creds args_creds)) ''remotes/origin'' =
     Some (OldNew (PyStr url_redacted) (PyStr url_redacted))"
  by (simp add: creds_inputs helper_defs stage_defs Let_def)

text \<open>
  C5 (amended): on an existing repository with a remote revision resolved (so not
  bare) whose inspection does not fail, \<^verbatim>\<open>latest\<close> compares the desired URL, with the
  credentials of the state in it, with the fetch URL of the remote as \<^verbatim>\<open>git.remotes\<close>
  returns it unredacted (none when the remote is not configured). When they are equal,
  no \<^verbatim>\<open>git.remote_set\<close> is invoked and no change is recorded under \<^verbatim>\<open>remotes/<remote>\<close>.
  When they differ, a real run invokes \<^verbatim>\<open>git.remote_set\<close> first, before any fetch or
  reset, and only once; when that call and the redaction of the old URL do not raise,
  the changes of the result hold the redacted old and new URLs under
  \<^verbatim>\<open>remotes/<remote>\<close>, whatever happens afterwards. A dry-run invokes nothing and
  predicts the same entry.
\<close>

theorem remote_url_update:
  assumes "precheck e a = None" and "remote_refs e = Inr refs" and "is_repo e a"
    and "rs = resolved_of e a" and "remote_rev rs = Some r" and "inspect e a rs = Inr f"
    and "remotes e = Inr rems"
  shows "(Some (desired_fetch_url e a) = map_of rems (eff_remote a) \<longrightarrow>
            (\<forall>c \<in> set (snd (latest e a)). \<not> is_remote_set c) \<and>
            changes (fst (latest e a)) (remote_key a) = None) \<and>
         (Some (desired_fetch_url e a) \<noteq> map_of rems (eff_remote a) \<and> \<not> test e \<longrightarrow>
            (\<exists>more. snd (latest e a) = the_remote_set a # more \<and> (\<forall>x \<in> set more. \<not> is_remote_set x)) \<and>
            (outcome e (the_remote_set a) = None \<and> redact_opt e (map_of rems (eff_remote a)) = Inr old \<longrightarrow>
               changes (fst (latest e a)) (remote_key a) =
                 Some (OldNew old (PyStr (redacted_fetch_url e a))))) \<and>
         (Some (desired_fetch_url e a) \<noteq> map_of rems (eff_remote a) \<and> test e \<and>
          redact_opt e (map_of rems (eff_remote a)) = Inr old \<longrightarrow>
            snd (latest e a) = [] \<and>
            changes (fst (latest e a)) (remote_key a) = Some (OldNew old (PyStr (redacted_fetch_url e a))))"
proof -
  from assms have run: "latest e a = set_remote_url e a rs f"
    by (simp add: latest_def existing_def)
  from assms have url: "fetch_url f = map_of rems (eff_remote a)"
    by (simp add: inspect_fetch_url)
  show ?thesis
    using set_remote_url_same [of rs r e a f] set_remote_url_differs [of rs r e a f old]
      set_remote_url_predicted [of rs r e a f old] assms(5)
    unfolding run url by blast
qed

theorem remote_url_update_witness:
  "hd (snd (latest env_creds args_creds)) = the_remote_set args_creds \<and>
   the_remote_set args_creds \<notin> set (tl (snd (latest env_creds args_creds))) \<and>
   changes (fst (latest env_creds args_creds)) ''remotes/origin'' =
     Some (OldNew (PyStr url_redacted) (PyStr url_redacted)) \<and>
   the_remote_set args_creds \<notin> set (snd (latest env_creds_same args_creds)) \<and>
   changes (fst (latest env_creds_same args_creds)) ''remotes/origin'' = None \<and>
   snd (latest env_creds_dry args_creds) = [] \<and>
   changes (fst (latest env_creds_dry args_creds)) ''remotes/origin'' =
     Some (OldNew (PyStr url_redacted) (PyStr url_redacted))"
proof -
  let ?a = args_creds
  let ?new = "''https://alice:new'' @ [CHR 0x40] @ ''x/repo.git''"
  have is_set: "is_remote_set (the_remote_set ?a)"
    by (simp add: is_remote_set_def the_remote_set_def)
  have key: "remote_key ?a = ''remotes/origin''" "eff_remote ?a = ''origin''"
    "desired_fetch_url env_creds ?a = ?new" "desired_fetch_url env_creds_same ?a = ?new"
    "desired_fetch_url env_creds_dry ?a = ?new"
    "redacted_fetch_url env_creds ?a = url_redacted" "redacted_fetch_url env_creds_dry ?a = url_redacted"
    by (simp_all add: creds_inputs helper_defs stage_defs)
  have pre: "precheck env_creds ?a = None" "precheck env_creds_same ?a = None" "precheck env_creds_dry ?a = None"
    "remote_refs env_creds = Inr [(''HEAD'', shaB), (''refs/heads/main'', shaB)]"
    "remote_refs env_creds_same = Inr [(''HEAD'', shaB), (''refs/heads/main'', shaB)]"
    "remote_refs env_creds_dry = Inr [(''HEAD'', shaB), (''refs/heads/main'', shaB)]"
    "is_repo env_creds ?a" "is_repo env_creds_same ?a" "is_repo env_creds_dry ?a"
    "remote_rev (resolved_of env_creds ?a) = Some shaB" "remote_rev (resolved_of env_creds_same ?a) = Some shaB"
    "remote_rev (resolved_of env_creds_dry ?a) = Some shaB"
    "remotes env_creds = Inr [(''origin'', url_old)]" "remotes env_creds_same = Inr [(''origin'', ?new)]"
    "remotes env_creds_dry = Inr [(''origin'', url_old)]"
    "\<not> test env_creds" "test env_creds_dry" "outcome env_creds (the_remote_set ?a) = None"
    "redact_opt env_creds (Some url_old) = Inr (PyStr url_redacted)"
    "redact_opt env_creds_dry (Some url_old) = Inr (PyStr url_redacted)"
    "?new \<noteq> url_old"
    by (simp_all add: creds_inputs helper_defs stage_defs Let_def)
  have "\<exists>f. inspect env_creds ?a (resolved_of env_creds ?a) = Inr f"
    by (simp add: creds_inputs helper_defs stage_defs Let_def)
  then obtain f1 where f1: "inspect env_creds ?a (resolved_of env_creds ?a) = Inr f1"
    by blast
  have "\<exists>f. inspect env_creds_same ?a (resolved_of env_creds_same ?a) = Inr f"
    by (simp add: creds_inputs helper_defs stage_defs Let_def)
  then obtain f2 where f2: "inspect env_creds_same ?a (resolved_of env_creds_same ?a) = Inr f2"
    by blast
  have "\<exists>f. inspect env_creds_dry ?a (resolved_of env_creds_dry ?a) = Inr f"
    by (simp add: creds_inputs helper_defs stage_defs Let_def)
  then obtain f3 where f3: "inspect env_creds_dry ?a (resolved_of env_creds_dry ?a) = Inr f3"
    by blast
  have a: "(\<exists>more. snd (latest env_creds ?a) = the_remote_set ?a # more \<and>
                    (\<forall>x \<in> set more. \<not> is_remote_set x)) \<and>
      changes (fst (latest env_creds ?a)) ''remotes/origin'' =
        Some (OldNew (PyStr url_redacted) (PyStr url_redacted))"
    using remote_url_update [OF pre(1) pre(4) pre(7) refl pre(10) f1 pre(13), of "PyStr url_redacted"]
      pre(16-21) by (simp add: key)
  have b: "(\<forall>c \<in> set (snd (latest env_creds_same ?a)). \<not> is_remote_set c) \<and>
      changes (fst (latest env_creds_same ?a)) ''remotes/origin'' = None"
    using remote_url_update [OF pre(2) pre(5) pre(8) refl pre(11) f2 pre(14)]
    by (simp add: key)
  have c: "snd (latest env_creds_dry ?a) = [] \<and>
      changes (fst (latest env_creds_dry ?a)) ''remotes/origin'' =
        Some (OldNew (PyStr url_redacted) (PyStr url_redacted))"
    using remote_url_update [OF pre(3) pre(6) pre(9) refl pre(12) f3 pre(15), of "PyStr url_redacted"]
      pre(16-21) by (simp add: key)
  from a b c is_set show ?thesis
    by auto
qed

subsection \<open>The prediction of the dry-run and the changes of the real run\<close>

lemma result_unexpected [simp]: "result (fst (unexpected e s x)) = Some False"
  by (simp add: unexpected_def fail_def)

lemma invoke_success: "result (fst (invoke e c s k)) = Some True \<Longrightarrow> invoke e c s k = k (add_call c s)"
  by (cases "outcome e c") (simp_all add: invoke_def)

lemma succ_submodules:
  assumes "result (fst (apply_submodules e a rs f s)) = Some True"
  shows "\<exists>s'. apply_submodules e a rs f s = finish e a rs f s' \<and> ret_of s' = ret_of s"
proof (cases "submodules a")
  case False
  then show ?thesis
    by (auto simp add: apply_submodules_def)
next
  case True
  let ?c = "Submodule (the_target a) ''update'' [''--recursive'', ''--init'']"
  from True assms have "apply_submodules e a rs f s = finish e a rs f (add_call ?c s)"
    using invoke_success [of e ?c s "finish e a rs f"] by (simp add: apply_submodules_def)
  then show ?thesis
    by (metis ret_of_add_call)
qed

lemma ret_of_add_comment [simp]: "ret_of (add_comment c s) = ret_of s"
  by (simp add: add_comment_def)

lemma ret_of_add_change [simp]: "ret_of (add_change k v s) = set_change k v (ret_of s)"
  by (simp add: add_change_def)

lemma succ_ff:
  assumes "result (fst (apply_ff e a rs f r ff s)) = Some True"
  shows "\<exists>s'. apply_ff e a rs f r ff s = finish e a rs f s' \<and> ret_of s' = ret_of s"
proof -
  have "\<exists>s1. apply_ff e a rs f r ff s = apply_submodules e a rs f s1 \<and> ret_of s1 = ret_of s"
  proof (cases "ff = Some True \<and> \<not> revs_equal (base_rev f) (Some r) (remote_rev_type rs)")
    case False
    then show ?thesis
      by (auto simp add: apply_ff_def)
  next
    case go: True
    show ?thesis
    proof (cases "truthy (desired_upstream rs)")
      case False
      let ?c = "Reset (the_target a) [''--hard'', if rev_eff rs = ''HEAD'' then r else rev_eff rs]"
      let ?k = "\<lambda>s1. apply_submodules e a rs f
                  (add_comment (''Repository was reset to '' @ rev_eff rs @ '' (fast-forward)'') s1)"
      from go False have eq: "apply_ff e a rs f r ff s = invoke e ?c s ?k"
        by (simp add: apply_ff_def)
      with assms have "invoke e ?c s ?k = ?k (add_call ?c s)"
        using invoke_success [of e ?c s ?k] by simp
      with eq show ?thesis
        by (metis ret_of_add_call ret_of_add_comment)
    next
      case True
      show ?thesis
      proof (cases "symbolic_ref e")
        case (Inl x)
        with go True assms show ?thesis
          by (simp add: apply_ff_def)
      next
        case (Inr on_branch)
        show ?thesis
        proof (cases on_branch)
          case False
          with go True Inr show ?thesis
            by (auto simp add: apply_ff_def)
        next
          case on: True
          let ?m = "if rev_eff rs = ''HEAD'' then head_ref rs else py_str (desired_upstream rs)"
          let ?c = "Merge (the_target a) ?m [''--ff-only'']"
          let ?k = "\<lambda>s1. apply_submodules e a rs f
                      (add_comment (''Repository was fast-forwarded to '' @ ?m @ '' ('' @
                                    fmt (short_sha (Some r)) @ '')'') s1)"
          from go True Inr on have eq: "apply_ff e a rs f r ff s = invoke e ?c s ?k"
            by (simp add: apply_ff_def Let_def)
          with assms have "invoke e ?c s ?k = ?k (add_call ?c s)"
            using invoke_success [of e ?c s ?k] by simp
          with eq show ?thesis
            by (metis ret_of_add_call ret_of_add_comment)
        qed
      qed
    qed
  qed
  then obtain s1 where s1: "apply_ff e a rs f r ff s = apply_submodules e a rs f s1" "ret_of s1 = ret_of s"
    by blast
  with assms obtain s' where "apply_submodules e a rs f s1 = finish e a rs f s'" "ret_of s' = ret_of s1"
    using succ_submodules [of e a rs f s1] by auto
  with s1 show ?thesis
    by (metis)
qed

lemma succ_branch:
  assumes "result (fst (apply_branch e a rs f r ff s)) = Some True"
  shows "\<exists>s'. apply_branch e a rs f r ff s = finish e a rs f s' \<and>
              ret_of s' =
                (if branch_opts e (upstream f) (desired_upstream rs) = None then ret_of s
                 else set_change ''upstream''
                        (OldNew (upstream f) (if truthy (desired_upstream rs) then desired_upstream rs else PyNone))
                        (ret_of s))"
proof -
  let ?v = "OldNew (upstream f) (if truthy (desired_upstream rs) then desired_upstream rs else PyNone)"
  have "\<exists>s1. apply_branch e a rs f r ff s = apply_ff e a rs f r ff s1 \<and>
             ret_of s1 = (if branch_opts e (upstream f) (desired_upstream rs) = None then ret_of s
                          else set_change ''upstream'' ?v (ret_of s))"
  proof (cases "branch_opts e (upstream f) (desired_upstream rs)")
    case None
    then show ?thesis
      by (auto simp add: apply_branch_def)
  next
    case (Some p)
    obtain act opts where p: "p = (act, opts)"
      by (cases p)
    let ?c = "Branch (the_target a) (base_branch f) opts"
    let ?k = "\<lambda>s1. apply_ff e a rs f r ff (add_comment act (add_change ''upstream'' ?v s1))"
    from Some p have eq: "apply_branch e a rs f r ff s = invoke e ?c s ?k"
      by (simp add: apply_branch_def)
    with assms have "invoke e ?c s ?k = ?k (add_call ?c s)"
      using invoke_success [of e ?c s ?k] by simp
    with eq Some have "apply_branch e a rs f r ff s =
        apply_ff e a rs f r ff (add_comment act (add_change ''upstream'' ?v (add_call ?c s))) \<and>
        ret_of (add_comment act (add_change ''upstream'' ?v (add_call ?c s))) =
          (if branch_opts e (upstream f) (desired_upstream rs) = None then ret_of s
           else set_change ''upstream'' ?v (ret_of s))"
      by simp
    then show ?thesis
      by blast
  qed
  then obtain s1 where s1: "apply_branch e a rs f r ff s = apply_ff e a rs f r ff s1"
    "ret_of s1 = (if branch_opts e (upstream f) (desired_upstream rs) = None then ret_of s
                  else set_change ''upstream'' ?v (ret_of s))"
    by blast
  with assms obtain s' where "apply_ff e a rs f r ff s1 = finish e a rs f s'" "ret_of s' = ret_of s1"
    using succ_ff [of e a rs f r ff s1] by auto
  with s1 show ?thesis
    by metis
qed

lemma succ_reset:
  assumes "result (fst (apply_reset e a rs f r ff s)) = Some True"
  shows "\<exists>s1. apply_reset e a rs f r ff s = apply_branch e a rs f r ff s1 \<and>
              ret_of s1 = (if ff = Some False then set_change ''forced update'' (Val (PyBool True)) (ret_of s)
                           else ret_of s)"
proof (cases "ff = Some False")
  case False
  then show ?thesis
    by (auto simp add: apply_reset_def)
next
  case True
  let ?c = "Reset (the_target a) [''--hard'', r]"
  let ?k = "\<lambda>s1. apply_branch e a rs f r ff
              (add_comment (''Repository was hard-reset to '' @ ref_to_use rs @ '' ('' @
                            fmt (short_sha (Some r)) @ '')'')
                 (add_change ''forced update'' (Val (PyBool True)) s1))"
  from True have eq: "apply_reset e a rs f r ff s = invoke e ?c s ?k"
    by (simp add: apply_reset_def)
  with assms have "invoke e ?c s ?k = ?k (add_call ?c s)"
    using invoke_success [of e ?c s ?k] by simp
  with eq True have "apply_reset e a rs f r ff s = apply_branch e a rs f r ff
        (add_comment (''Repository was hard-reset to '' @ ref_to_use rs @ '' ('' @ fmt (short_sha (Some r)) @ '')'')
           (add_change ''forced update'' (Val (PyBool True)) (add_call ?c s))) \<and>
      ret_of (add_comment (''Repository was hard-reset to '' @ ref_to_use rs @ '' ('' @
                           fmt (short_sha (Some r)) @ '')'')
                (add_change ''forced update'' (Val (PyBool True)) (add_call ?c s))) =
        (if ff = Some False then set_change ''forced update'' (Val (PyBool True)) (ret_of s) else ret_of s)"
    by simp
  then show ?thesis
    by blast
qed

lemma succ_checkout:
  assumes "result (fst (apply_checkout e a rs f r ff s)) = Some True"
  shows "\<exists>s1. apply_checkout e a rs f r ff s = apply_reset e a rs f r ff s1 \<and>
              ret_of s1 =
                (case branch a of
                   None \<Rightarrow> ret_of s
                 | Some b \<Rightarrow> if Some b \<noteq> local_branch f
                             then set_change ''local branch'' (OldNew (opt_str (local_branch f)) (PyStr b)) (ret_of s)
                             else ret_of s)"
proof (cases "\<exists>b. branch a = Some b \<and> Some b \<noteq> local_branch f")
  case False
  then show ?thesis
    by (auto simp add: apply_checkout_def split: option.splits)
next
  case True
  then obtain b where b: "branch a = Some b" "Some b \<noteq> local_branch f"
    by blast
  let ?c = "if b \<notin> set (all_local_branches f)
            then Checkout (the_target a) (ref_to_use rs) (force_checkout a) [''-b'', b]
            else Checkout (the_target a) b (force_checkout a) []"
  let ?k = "\<lambda>s1. apply_reset e a rs f r ff
              (add_change ''local branch'' (OldNew (opt_str (local_branch f)) (PyStr b)) s1)"
  from b assms have eq: "apply_checkout e a rs f r ff s = invoke e ?c s ?k"
    by (auto simp add: apply_checkout_def fail_def split: sum.splits if_splits)
  with assms have "invoke e ?c s ?k = ?k (add_call ?c s)"
    using invoke_success [of e ?c s ?k] by simp
  with eq b have "apply_checkout e a rs f r ff s = apply_reset e a rs f r ff
        (add_change ''local branch'' (OldNew (opt_str (local_branch f)) (PyStr b)) (add_call ?c s)) \<and>
      ret_of (add_change ''local branch'' (OldNew (opt_str (local_branch f)) (PyStr b)) (add_call ?c s)) =
        (case branch a of
           None \<Rightarrow> ret_of s
         | Some b \<Rightarrow> if Some b \<noteq> local_branch f
                     then set_change ''local branch'' (OldNew (opt_str (local_branch f)) (PyStr b)) (ret_of s)
                     else ret_of s)"
    by simp
  then show ?thesis
    by blast
qed

lemma result_not_fast_forward [simp]: "result (not_fast_forward r0 pre post br lb cs) = Some False"
  by (simp add: not_fast_forward_def fail_def)

lemma result_fail [simp]: "result (fail r0 m cs) = Some False"
  by (simp add: fail_def)

lemma succ_fetch:
  assumes "result (fst (apply_fetch e a rs f r s)) = Some True"
  shows "\<exists>s1 ff. apply_fetch e a rs f r s = apply_checkout e a rs f r ff s1 \<and>
                 (has_remote_rev f \<longrightarrow> ff = fast_forward f \<and> ret_of s1 = ret_of s) \<and>
                 (\<forall>k. k \<noteq> ''fetch'' \<longrightarrow> changes (ret_of s1) k = changes (ret_of s) k)"
proof (cases "has_remote_rev f")
  case True
  then show ?thesis
    by (auto simp add: apply_fetch_def)
next
  case False
  let ?s2 = "record_fetch e (add_call (the_fetch a) s)"
  from False assms have "\<exists>ff. apply_fetch e a rs f r s = apply_checkout e a rs f r (Some ff) ?s2"
    by (auto simp add: apply_fetch_def Let_def split: option.splits sum.splits exn.splits if_splits)
  moreover have "\<forall>k. k \<noteq> ''fetch'' \<longrightarrow> changes (ret_of ?s2) k = changes (ret_of s) k"
    by (simp add: keeps_record_fetch)
  ultimately show ?thesis
    using False by blast
qed

lemma succ_finish:
  assumes "result (fst (finish e a rs f s)) = Some True" and "\<not> eff_bare a" and "remote_rev rs = Some r"
  shows "\<exists>h. new_revision e = Inr h \<and> revs_equal (Some h) (Some r) (remote_rev_type rs) \<and>
             (\<forall>k. k \<noteq> ''revision'' \<longrightarrow> changes (fst (finish e a rs f s)) k = changes (ret_of s) k) \<and>
             changes (fst (finish e a rs f s)) ''revision'' =
               (if local_rev f \<noteq> Some h then Some (OldNew (opt_str (local_rev f)) (PyStr h))
                else changes (ret_of s) ''revision'')"
proof (cases "new_revision e")
  case (Inl x)
  with assms show ?thesis
    by (cases x) (simp_all add: finish_def catch_cee_def)
next
  case (Inr h)
  with assms show ?thesis
    by (auto simp add: finish_def catch_cee_def set_change_def uptodate_def opt_str_def split: if_splits)
qed

lemma succ_real:
  assumes "\<not> test e" and "remote_rev rs = Some r" and "result (fst (set_remote_url e a rs f)) = Some True"
  shows "\<exists>s'. set_remote_url e a rs f = finish e a rs f s' \<and>
              changes (ret_of s') ''revision'' = None \<and>
              changes (ret_of s') (remote_key a) =
                (if Some (desired_fetch_url e a) \<noteq> fetch_url f
                 then (case redact_opt e (fetch_url f) of
                         Inl x \<Rightarrow> None
                       | Inr old \<Rightarrow> Some (OldNew old (PyStr (redacted_fetch_url e a))))
                 else None) \<and>
              changes (ret_of s') ''local branch'' =
                (case branch a of
                   None \<Rightarrow> None
                 | Some b \<Rightarrow> if Some b \<noteq> local_branch f
                             then Some (OldNew (opt_str (local_branch f)) (PyStr b)) else None) \<and>
              (has_remote_rev f \<and> fast_forward f = Some False \<longrightarrow>
                 changes (ret_of s') ''forced update'' = Some (Val (PyBool True))) \<and>
              changes (ret_of s') ''upstream'' =
                (if branch_opts e (upstream f) (desired_upstream rs) = None then None
                 else Some (OldNew (upstream f)
                              (if truthy (desired_upstream rs) then desired_upstream rs else PyNone)))"
proof -
  let ?url = "if Some (desired_fetch_url e a) \<noteq> fetch_url f
              then (case redact_opt e (fetch_url f) of
                      Inl x \<Rightarrow> None
                    | Inr old \<Rightarrow> Some (OldNew old (PyStr (redacted_fetch_url e a))))
              else None"
  have "\<exists>s0. set_remote_url e a rs f = apply_fetch e a rs f r s0 \<and>
             (\<forall>k. k \<noteq> remote_key a \<longrightarrow> changes (ret_of s0) k = None) \<and>
             changes (ret_of s0) (remote_key a) = ?url"
  proof (cases "Some (desired_fetch_url e a) \<noteq> fetch_url f")
    case False
    with assms(1,2) have "set_remote_url e a rs f = apply_fetch e a rs f r (start a)"
      by (simp add: set_remote_url_def update_def)
    moreover from False have "(\<forall>k. k \<noteq> remote_key a \<longrightarrow> changes (ret_of (start a)) k = None) \<and>
        changes (ret_of (start a)) (remote_key a) = ?url"
      by simp
    ultimately show ?thesis
      by blast
  next
    case True
    let ?k = "\<lambda>s1. case redact_opt e (fetch_url f) of
                     Inl x \<Rightarrow> unexpected e s1 x
                   | Inr old \<Rightarrow>
                       update e a rs f
                         (add_comment (''Remote '' @ quoted (eff_remote a) @ '' set to '' @ redacted_fetch_url e a)
                            (add_change (remote_key a) (OldNew old (PyStr (redacted_fetch_url e a))) s1))"
    from True assms(1,2) have eq: "set_remote_url e a rs f = invoke e (the_remote_set a) (start a) ?k"
      by (simp add: set_remote_url_def)
    with assms(3) have run: "set_remote_url e a rs f = ?k (add_call (the_remote_set a) (start a))"
      using invoke_success [of e "the_remote_set a" "start a" ?k] by simp
    show ?thesis
    proof (cases "redact_opt e (fetch_url f)")
      case (Inl x)
      with run assms(3) show ?thesis
        by simp
    next
      case (Inr old)
      let ?s0 = "add_comment (''Remote '' @ quoted (eff_remote a) @ '' set to '' @ redacted_fetch_url e a)
                   (add_change (remote_key a) (OldNew old (PyStr (redacted_fetch_url e a)))
                      (add_call (the_remote_set a) (start a)))"
      from run Inr assms(1,2) have "set_remote_url e a rs f = apply_fetch e a rs f r ?s0"
        by (simp add: update_def)
      moreover from True Inr have "(\<forall>k. k \<noteq> remote_key a \<longrightarrow> changes (ret_of ?s0) k = None) \<and>
          changes (ret_of ?s0) (remote_key a) = ?url"
        by (simp add: set_change_def)
      ultimately show ?thesis
        by blast
    qed
  qed
  then obtain s0 where s0: "set_remote_url e a rs f = apply_fetch e a rs f r s0"
    "\<forall>k. k \<noteq> remote_key a \<longrightarrow> changes (ret_of s0) k = None"
    "changes (ret_of s0) (remote_key a) = ?url"
    by blast
  from s0(1) assms(3) obtain s1 ff where s1: "apply_fetch e a rs f r s0 = apply_checkout e a rs f r ff s1"
    "has_remote_rev f \<longrightarrow> ff = fast_forward f"
    "\<forall>k. k \<noteq> ''fetch'' \<longrightarrow> changes (ret_of s1) k = changes (ret_of s0) k"
    using succ_fetch [of e a rs f r s0] by auto
  from s0(1) s1(1) assms(3) obtain s2 where s2: "apply_checkout e a rs f r ff s1 = apply_reset e a rs f r ff s2"
    "ret_of s2 = (case branch a of
                    None \<Rightarrow> ret_of s1
                  | Some b \<Rightarrow> if Some b \<noteq> local_branch f
                              then set_change ''local branch'' (OldNew (opt_str (local_branch f)) (PyStr b))
                                     (ret_of s1)
                              else ret_of s1)"
    using succ_checkout [of e a rs f r ff s1] by auto
  from s0(1) s1(1) s2(1) assms(3) obtain s3 where s3: "apply_reset e a rs f r ff s2 = apply_branch e a rs f r ff s3"
    "ret_of s3 = (if ff = Some False then set_change ''forced update'' (Val (PyBool True)) (ret_of s2)
                  else ret_of s2)"
    using succ_reset [of e a rs f r ff s2] by auto
  from s0(1) s1(1) s2(1) s3(1) assms(3) obtain s4 where s4: "apply_branch e a rs f r ff s3 = finish e a rs f s4"
    "ret_of s4 = (if branch_opts e (upstream f) (desired_upstream rs) = None then ret_of s3
                  else set_change ''upstream''
                         (OldNew (upstream f) (if truthy (desired_upstream rs) then desired_upstream rs else PyNone))
                         (ret_of s3))"
    using succ_branch [of e a rs f r ff s3] by auto
  have run: "set_remote_url e a rs f = finish e a rs f s4"
    using s0(1) s1(1) s2(1) s3(1) s4(1) by simp
  have none: "changes (ret_of s1) k = None" if "k \<in> {''revision'', ''local branch'', ''upstream''}" for k
  proof -
    from that have "k \<noteq> remote_key a" "k \<noteq> ''fetch''"
      by (auto simp add: remote_key_def)
    with s0(2) s1(3) show ?thesis
      by simp
  qed
  have url: "changes (ret_of s1) (remote_key a) = ?url"
    using s0(3) s1(3) by simp
  have k1: "changes (ret_of s4) ''revision'' = None"
    using none [of "''revision''"] s2(2) s3(2) s4(2) by (simp add: set_change_def split: option.splits)
  have k2: "changes (ret_of s4) (remote_key a) = ?url"
    using url s2(2) s3(2) s4(2) by (simp add: set_change_def split: option.splits)
  have k3: "changes (ret_of s4) ''local branch'' =
      (case branch a of
         None \<Rightarrow> None
       | Some b \<Rightarrow> if Some b \<noteq> local_branch f
                   then Some (OldNew (opt_str (local_branch f)) (PyStr b)) else None)"
    using none [of "''local branch''"] s2(2) s3(2) s4(2) by (simp add: set_change_def split: option.splits)
  have k4: "has_remote_rev f \<and> fast_forward f = Some False \<longrightarrow>
      changes (ret_of s4) ''forced update'' = Some (Val (PyBool True))"
    using s1(2) s3(2) s4(2) by (simp add: set_change_def)
  have k5: "changes (ret_of s4) ''upstream'' =
      (if branch_opts e (upstream f) (desired_upstream rs) = None then None
       else Some (OldNew (upstream f) (if truthy (desired_upstream rs) then desired_upstream rs else PyNone)))"
    using none [of "''upstream''"] s2(2) s3(2) s4(2) by (simp add: set_change_def split: option.splits)
  from run k1 k2 k3 k4 k5 show ?thesis
    by blast
qed

lemma dry_remote_key:
  assumes "test e" and "remote_rev rs = Some r"
  shows "changes (fst (set_remote_url e a rs f)) (remote_key a) =
           (if Some (desired_fetch_url e a) \<noteq> fetch_url f
            then (case redact_opt e (fetch_url f) of
                    Inl x \<Rightarrow> None
                  | Inr old \<Rightarrow> Some (OldNew old (PyStr (redacted_fetch_url e a))))
            else None)"
  using assms
  by (simp add: set_remote_url_def update_def keeps_predict predict_remote_def Let_def predicted_ret_def
      neutral_test_def uptodate_def set_change_def unexpected_def fail_def split: sum.splits)

lemma dry_local_branch:
  assumes "test e" and "remote_rev rs = Some r"
    and "changes (fst (set_remote_url e a rs f)) ''local branch'' = Some v"
  shows "\<exists>b. branch a = Some b \<and> Some b \<noteq> local_branch f \<and> v = OldNew (opt_str (local_branch f)) (PyStr b)"
  using assms
  by (auto simp add: set_remote_url_def update_def predict_def branch_prediction_def predict_remote_def Let_def
      predicted_ret_def neutral_test_def uptodate_def set_change_def unexpected_def fail_def remote_key_def
      split: sum.splits option.splits if_splits)

lemma dry_forced_update:
  assumes "test e" and "remote_rev rs = Some r"
    and "changes (fst (set_remote_url e a rs f)) ''forced update'' = Some v"
  shows "fast_forward f = Some False \<and> v = Val (PyBool True)"
  using assms
  by (auto simp add: set_remote_url_def update_def predict_def branch_prediction_def predict_remote_def Let_def
      predicted_ret_def neutral_test_def uptodate_def set_change_def unexpected_def fail_def remote_key_def
      split: sum.splits option.splits if_splits)

lemma dry_upstream:
  assumes "test e" and "remote_rev rs = Some r"
    and "changes (fst (set_remote_url e a rs f)) ''upstream'' = Some v"
  shows "upstream_prediction (upstream f) (desired_upstream rs) \<noteq> None \<and>
         v = OldNew (upstream f) (desired_upstream rs)"
  using assms
  by (auto simp add: set_remote_url_def update_def predict_def branch_prediction_def predict_remote_def Let_def
      predicted_ret_def neutral_test_def uptodate_def set_change_def unexpected_def fail_def remote_key_def
      split: sum.splits option.splits if_splits)

lemma dry_revision:
  assumes "test e" and "remote_rev rs = Some r"
    and "changes (fst (set_remote_url e a rs f)) ''revision'' = Some v"
  shows "\<not> revs_equal (local_rev f) (Some r) (remote_rev_type rs) \<and>
         v = OldNew (opt_str (local_rev f)) (PyStr r)"
  using assms
  by (auto simp add: set_remote_url_def update_def predict_def branch_prediction_def predict_remote_def Let_def
      predicted_ret_def neutral_test_def uptodate_def set_change_def unexpected_def fail_def remote_key_def
      split: sum.splits option.splits if_splits)

lemma prediction_of_upstream:
  "upstream_prediction up du \<noteq> None \<longleftrightarrow> branch_opts e up du \<noteq> None"
  by (simp add: upstream_prediction_def branch_opts_def)

lemma inspect_forced:
  "inspect e a rs = Inr f \<Longrightarrow> fast_forward f = Some False \<Longrightarrow> has_remote_rev f"
  by (auto simp add: inspect_def compare_revs_def fast_forward_of_def
      split: sum.splits prod.splits if_splits option.splits)

lemma check_identity_test: "check_identity (e\<lparr>test := t\<rparr>) ps = check_identity e ps"
  by (induction ps) (auto simp add: Let_def split: option.splits)

lemma dry_env:
  "precheck (e\<lparr>test := t\<rparr>) a = precheck e a" "is_repo (e\<lparr>test := t\<rparr>) a = is_repo e a"
  "resolved_of (e\<lparr>test := t\<rparr>) a = resolved_of e a" "inspect (e\<lparr>test := t\<rparr>) a rs = inspect e a rs"
  "desired_fetch_url (e\<lparr>test := t\<rparr>) a = desired_fetch_url e a"
  "redacted_fetch_url (e\<lparr>test := t\<rparr>) a = redacted_fetch_url e a"
  "redact_opt (e\<lparr>test := t\<rparr>) u = redact_opt e u"
  by (simp_all add: precheck_def mod_run_check_def is_repo_def resolved_of_def all_remote_refs_def inspect_def
      local_state_def compare_revs_def base_of_def has_remote_rev_of_def fast_forward_of_def upstream_of_def
      redact_opt_def desired_fetch_url_def redacted_fetch_url_def exc_msg_def check_identity_test Let_def
      cong: option.case_cong sum.case_cong exn.case_cong rev_type.case_cong if_cong)

text \<open>
  What the two runs agree on. On an existing repository that is not bare, with a remote
  revision resolved, when the real run succeeds: the entry \<^verbatim>\<open>remotes/<remote>\<close> is the
  same in the dry-run and in the real run; a predicted \<^verbatim>\<open>local branch\<close> or
  \<^verbatim>\<open>forced update\<close> entry is recorded with the same value; so is a predicted \<^verbatim>\<open>upstream\<close>
  entry when there is a tracking target to set; and a predicted \<^verbatim>\<open>revision\<close> entry is
  recorded from the same local revision to the final \<^verbatim>\<open>HEAD\<close>, which \<^verbatim>\<open>_revs_equal\<close>
  accepts for the remote revision.
\<close>

lemma predictions_realised:
  assumes "precheck e a = None" and "remote_refs e = Inr refs" and "is_repo e a" and "\<not> eff_bare a"
    and "rs = resolved_of e a" and "remote_rev rs = Some r" and "\<not> test e"
    and "dry = fst (latest (e\<lparr>test := True\<rparr>) a)" and "real = fst (latest e a)"
    and "result real = Some True"
  shows "changes dry (remote_key a) = changes real (remote_key a) \<and>
         (\<forall>v. changes dry ''local branch'' = Some v \<longrightarrow> changes real ''local branch'' = Some v) \<and>
         (\<forall>v. changes dry ''forced update'' = Some v \<longrightarrow> changes real ''forced update'' = Some v) \<and>
         (\<forall>v. changes dry ''upstream'' = Some v \<and> truthy (desired_upstream rs) \<longrightarrow>
              changes real ''upstream'' = Some v) \<and>
         (\<forall>v. changes dry ''revision'' = Some v \<longrightarrow>
              (\<exists>old h. new_revision e = Inr h \<and> revs_equal (Some h) (Some r) (remote_rev_type rs) \<and>
                       v = OldNew old (PyStr r) \<and> changes real ''revision'' = Some (OldNew old (PyStr h))))"
proof -
  let ?e = "e\<lparr>test := True\<rparr>"
  from assms have run: "latest e a = existing e a rs"
    by (simp add: latest_def)
  have "\<exists>f. inspect e a rs = Inr f"
  proof (cases "inspect e a rs")
    case (Inl r0)
    with run assms(9,10) show ?thesis
      using inspect_fails [OF Inl] by (simp add: existing_def)
  next
    case (Inr f)
    then show ?thesis
      by blast
  qed
  then obtain f where f: "inspect e a rs = Inr f"
    by blast
  from run f assms(9) have real: "real = fst (set_remote_url e a rs f)"
    by (simp add: existing_def)
  from assms f have dry: "dry = fst (set_remote_url ?e a rs f)"
    by (simp add: latest_def existing_def dry_env)
  have t: "test ?e"
    by simp
  from real assms(10) have ok: "result (fst (set_remote_url e a rs f)) = Some True"
    by simp
  from succ_real [OF assms(7) assms(6) ok] obtain s' where s': "set_remote_url e a rs f = finish e a rs f s'"
    "changes (ret_of s') ''revision'' = None"
    "changes (ret_of s') (remote_key a) =
       (if Some (desired_fetch_url e a) \<noteq> fetch_url f
        then (case redact_opt e (fetch_url f) of
                Inl x \<Rightarrow> None
              | Inr old \<Rightarrow> Some (OldNew old (PyStr (redacted_fetch_url e a))))
        else None)"
    "changes (ret_of s') ''local branch'' =
       (case branch a of
          None \<Rightarrow> None
        | Some b \<Rightarrow> if Some b \<noteq> local_branch f
                    then Some (OldNew (opt_str (local_branch f)) (PyStr b)) else None)"
    "has_remote_rev f \<and> fast_forward f = Some False \<longrightarrow>
       changes (ret_of s') ''forced update'' = Some (Val (PyBool True))"
    "changes (ret_of s') ''upstream'' =
       (if branch_opts e (upstream f) (desired_upstream rs) = None then None
        else Some (OldNew (upstream f) (if truthy (desired_upstream rs) then desired_upstream rs else PyNone)))"
    by blast
  from ok s'(1) have "result (fst (finish e a rs f s')) = Some True"
    by simp
  from succ_finish [OF this assms(4) assms(6)] obtain h where h: "new_revision e = Inr h"
    "revs_equal (Some h) (Some r) (remote_rev_type rs)"
    "\<forall>k. k \<noteq> ''revision'' \<longrightarrow> changes (fst (finish e a rs f s')) k = changes (ret_of s') k"
    "changes (fst (finish e a rs f s')) ''revision'' =
       (if local_rev f \<noteq> Some h then Some (OldNew (opt_str (local_rev f)) (PyStr h))
        else changes (ret_of s') ''revision'')"
    by blast
  have other: "changes real k = changes (ret_of s') k" if "k \<noteq> ''revision''" for k
    using that h(3) real s'(1) by simp
  have c1: "changes dry (remote_key a) = changes real (remote_key a)"
    using dry_remote_key [OF t assms(6), of a f] other [of "remote_key a"] s'(3) dry
    by (simp add: dry_env cong: sum.case_cong)
  have c2: "changes real ''local branch'' = Some v" if "changes dry ''local branch'' = Some v" for v
    using dry_local_branch [OF t assms(6), of a f v] that dry other [of "''local branch''"] s'(4)
    by auto
  have c3: "changes real ''forced update'' = Some v" if "changes dry ''forced update'' = Some v" for v
    using dry_forced_update [OF t assms(6), of a f v] that dry other [of "''forced update''"] s'(5)
      inspect_forced [OF f]
    by auto
  have c4: "changes real ''upstream'' = Some v"
    if "changes dry ''upstream'' = Some v \<and> truthy (desired_upstream rs)" for v
    using dry_upstream [OF t assms(6), of a f v] that dry other [of "''upstream''"] s'(6)
      prediction_of_upstream [of "upstream f" "desired_upstream rs" e]
    by auto
  have c5: "\<exists>old h. new_revision e = Inr h \<and> revs_equal (Some h) (Some r) (remote_rev_type rs) \<and>
                    v = OldNew old (PyStr r) \<and> changes real ''revision'' = Some (OldNew old (PyStr h))"
    if "changes dry ''revision'' = Some v" for v
  proof -
    from that dry have d: "\<not> revs_equal (local_rev f) (Some r) (remote_rev_type rs)"
      "v = OldNew (opt_str (local_rev f)) (PyStr r)"
      using dry_revision [OF t assms(6), of a f v] by simp_all
    from d(1) h(2) have "local_rev f \<noteq> Some h"
      by auto
    with h(4) real s'(1) have "changes real ''revision'' = Some (OldNew (opt_str (local_rev f)) (PyStr h))"
      by simp
    with h(1,2) d(2) show ?thesis
      by blast
  qed
  from c1 c2 c3 c4 c5 show ?thesis
    by blast
qed

lemmas prediction_inputs = env_creds_def args_creds_def url_old_def url_redacted_def with_credentials_def
  redact_credentials_def env_ff_def args_main_def shaA_def shaB_def shaC_def args_dev_def env_untracked_def
  args_force_def env_forced_def env_diverged_local_def env_diverged_def

lemma predictions_realised_example:
  "changes (fst (latest env_creds args_creds)) ''remotes/origin'' =
     Some (OldNew (PyStr url_redacted) (PyStr url_redacted)) \<and>
   changes (fst (latest env_creds args_creds)) ''revision'' = Some (OldNew (PyStr shaA) (PyStr shaB)) \<and>
   changes (fst (latest env_untracked args_dev)) ''local branch'' =
     Some (OldNew (PyStr ''main'') (PyStr ''dev'')) \<and>
   changes (fst (latest env_untracked args_dev)) ''upstream'' =
     Some (OldNew (PyBool False) (PyStr ''origin/main'')) \<and>
   changes (fst (latest env_forced args_force)) ''forced update'' = Some (Val (PyBool True)) \<and>
   changes (fst (latest env_forced args_force)) ''revision'' = Some (OldNew (PyStr shaA) (PyStr shaC))"
proof -
  have refs: "remote_refs env_creds = Inr [(''HEAD'', shaB), (''refs/heads/main'', shaB)]"
    "remote_refs env_untracked = Inr [(''HEAD'', shaB), (''refs/heads/main'', shaB)]"
    "remote_refs env_forced = Inr [(''HEAD'', shaC), (''refs/heads/main'', shaC)]"
    by (simp_all add: prediction_inputs)
  have pre: "precheck env_creds args_creds = None" "precheck env_untracked args_dev = None"
    "precheck env_forced args_force = None"
    "is_repo env_creds args_creds" "is_repo env_untracked args_dev" "is_repo env_forced args_force"
    "\<not> eff_bare args_creds" "\<not> eff_bare args_dev" "\<not> eff_bare args_force"
    "remote_rev (resolved_of env_creds args_creds) = Some shaB"
    "remote_rev (resolved_of env_untracked args_dev) = Some shaB"
    "remote_rev (resolved_of env_forced args_force) = Some shaC"
    "\<not> test env_creds" "\<not> test env_untracked" "\<not> test env_forced"
    by (simp_all add: prediction_inputs helper_defs stage_defs Let_def)
  have ok: "result (fst (latest env_creds args_creds)) = Some True"
    "result (fst (latest env_untracked args_dev)) = Some True"
    "result (fst (latest env_forced args_force)) = Some True"
    by (simp_all add: prediction_inputs helper_defs stage_defs Let_def)
  have dry1: "changes (fst (latest (env_creds\<lparr>test := True\<rparr>) args_creds)) ''remotes/origin'' =
      Some (OldNew (PyStr url_redacted) (PyStr url_redacted))"
    "changes (fst (latest (env_creds\<lparr>test := True\<rparr>) args_creds)) ''revision'' =
      Some (OldNew (PyStr shaA) (PyStr shaB))"
    by (simp_all add: prediction_inputs helper_defs stage_defs Let_def)
  have dry2: "changes (fst (latest (env_untracked\<lparr>test := True\<rparr>) args_dev)) ''local branch'' =
      Some (OldNew (PyStr ''main'') (PyStr ''dev''))"
    "changes (fst (latest (env_untracked\<lparr>test := True\<rparr>) args_dev)) ''upstream'' =
      Some (OldNew (PyBool False) (PyStr ''origin/main''))"
    "truthy (desired_upstream (resolved_of env_untracked args_dev))"
    by (simp_all add: prediction_inputs helper_defs stage_defs Let_def)
  have dry3: "changes (fst (latest (env_forced\<lparr>test := True\<rparr>) args_force)) ''forced update'' =
      Some (Val (PyBool True))"
    "changes (fst (latest (env_forced\<lparr>test := True\<rparr>) args_force)) ''revision'' =
      Some (OldNew (PyStr shaA) (PyStr shaC))"
    by (simp_all add: prediction_inputs helper_defs stage_defs Let_def)
  have head: "new_revision env_creds = Inr shaB" "new_revision env_forced = Inr shaC"
    "remote_key args_creds = ''remotes/origin''"
    by (simp_all add: prediction_inputs helper_defs stage_defs)
  have a: "changes (fst (latest env_creds args_creds)) ''remotes/origin'' =
        Some (OldNew (PyStr url_redacted) (PyStr url_redacted)) \<and>
      changes (fst (latest env_creds args_creds)) ''revision'' = Some (OldNew (PyStr shaA) (PyStr shaB))"
    using predictions_realised [OF pre(1) refs(1) pre(4) pre(7) refl pre(10) pre(13) refl refl ok(1)]
      dry1 head by auto
  have b: "changes (fst (latest env_untracked args_dev)) ''local branch'' =
        Some (OldNew (PyStr ''main'') (PyStr ''dev'')) \<and>
      changes (fst (latest env_untracked args_dev)) ''upstream'' =
        Some (OldNew (PyBool False) (PyStr ''origin/main''))"
    using predictions_realised [OF pre(2) refs(2) pre(5) pre(8) refl pre(11) pre(14) refl refl ok(2)]
      dry2 by auto
  have c: "changes (fst (latest env_forced args_force)) ''forced update'' = Some (Val (PyBool True)) \<and>
      changes (fst (latest env_forced args_force)) ''revision'' = Some (OldNew (PyStr shaA) (PyStr shaC))"
    using predictions_realised [OF pre(3) refs(3) pre(6) pre(9) refl pre(12) pre(15) refl refl ok(3)]
      dry3 head by auto
  from a b c show ?thesis
    by blast
qed

lemmas reset_inputs = args_reset_def env_reset_def args_reset_dev_def env_reset_dev_def env_diverged_local_def
  env_diverged_def env_ff_def args_main_def shaA_def shaC_def

text \<open>
  C3 fails on the code, and without any fetch: the prediction of the dry-run is written
  in lines 793 to 825 and 848 to 946, the changes of the real run in lines 827 to 845
  and 948 to 1207, and the two do not name the same keys. In scenario D with C
  already in the clone and \<^verbatim>\<open>force_reset\<close> true, the dry-run predicts the change of the
  revision only, and the real run, which makes one hard reset and no fetch, also records
  \<^verbatim>\<open>forced update\<close> (line 1074). When the state also asks for the local branch \<^verbatim>\<open>dev\<close>,
  the dry-run predicts the key \<^verbatim>\<open>hard reset\<close> (line 883), which the real run never
  writes, where the real run records \<^verbatim>\<open>forced update\<close>.
\<close>

theorem prediction_differs_from_execution:
  "precheck env_reset args_reset = None \<and> is_repo env_reset args_reset \<and> \<not> eff_bare args_reset \<and>
   force_reset args_reset \<and> \<not> test env_reset \<and>
   remote_rev (resolved_of env_reset args_reset) = Some shaC \<and>
   changes (fst (latest (env_reset\<lparr>test := True\<rparr>) args_reset)) =
     Map.empty(''revision'' \<mapsto> OldNew (PyStr shaA) (PyStr shaC)) \<and>
   snd (latest (env_reset\<lparr>test := True\<rparr>) args_reset) = [] \<and>
   result (fst (latest env_reset args_reset)) = Some True \<and>
   snd (latest env_reset args_reset) = [Reset ''/srv/repo'' [''--hard'', shaC]] \<and>
   changes (fst (latest env_reset args_reset)) =
     Map.empty(''forced update'' \<mapsto> Val (PyBool True),
               ''revision'' \<mapsto> OldNew (PyStr shaA) (PyStr shaC)) \<and>
   changes (fst (latest (env_reset\<lparr>test := True\<rparr>) args_reset)) ''forced update'' = None \<and>
   changes (fst (latest (env_reset_dev\<lparr>test := True\<rparr>) args_reset_dev)) =
     Map.empty(''revision'' \<mapsto> OldNew (PyStr shaA) (PyStr shaC),
               ''local branch'' \<mapsto> OldNew (PyStr ''main'') (PyStr ''dev''),
               ''hard reset'' \<mapsto> Val (PyBool True)) \<and>
   result (fst (latest env_reset_dev args_reset_dev)) = Some True \<and>
   snd (latest env_reset_dev args_reset_dev) =
     [Checkout ''/srv/repo'' ''dev'' False [], Reset ''/srv/repo'' [''--hard'', shaC]] \<and>
   changes (fst (latest env_reset_dev args_reset_dev)) =
     Map.empty(''local branch'' \<mapsto> OldNew (PyStr ''main'') (PyStr ''dev''),
               ''forced update'' \<mapsto> Val (PyBool True),
               ''revision'' \<mapsto> OldNew (PyStr shaA) (PyStr shaC)) \<and>
   changes (fst (latest env_reset_dev args_reset_dev)) ''hard reset'' = None"
  by (simp add: reset_inputs helper_defs stage_defs Let_def)
section \<open>Properties of \<^verbatim>\<open>config_set\<close>\<close>

text \<open>
  C9, as stated, fails in a dry-run: with \<^verbatim>\<open>__opts__['test']\<close> set and a current value
  that differs from the desired one, \<^verbatim>\<open>config_set\<close> writes nothing and returns the
  neutral result.
\<close>

theorem config_set_dry_run_counterexample:
  "cfg_valid cfg_args_email \<and>
   cfg_desired cfg_args_email \<noteq> cfg_config_get cfg_env_email_dry \<and>
   snd (config_set cfg_env_email_dry cfg_args_email) = [] \<and>
   map_sum id result (fst (config_set cfg_env_email_dry cfg_args_email)) = Inr None"
  by (simp add: config_set_def cfg_valid_def cfg_args_email_def cfg_env_email_dry_def cfg_env_email_def
      cfg_desired_def cfg_multivar_list_def cfg_is_global_eff_def initial_ret_def neutral_test_def)

text \<open>
  C9 (amended): for a call that passes the validation and gives a value or a multivar,
  \<^verbatim>\<open>config_set\<close> compares the current list of values with the desired list (list
  equality, so the order counts). When they are equal it writes nothing and returns
  success with no changes. When they differ, a dry-run writes nothing and returns the
  neutral result with the predicted old and new values; a real run makes the one write
  call and takes the values read back from it: it records an old/new entry under the
  key's name when the values read back differ from the old ones, succeeds when they
  equal the desired list (the entry is then present), and otherwise fails with
  \<^verbatim>\<open>result = False\<close> and a comment that differs from the comment of a failed write
  command.
\<close>

theorem config_set_compares_writes_confirms:
  assumes "cfg_valid a" and "cfg_desired a = Some d"
  shows "(cfg_config_get e = Some d \<longrightarrow>
            snd (config_set e a) = [] \<and>
            (\<exists>r. fst (config_set e a) = Inr r \<and> result r = Some True \<and> changes r = Map.empty)) \<and>
         (cfg_config_get e \<noteq> Some d \<and> cfg_test e \<longrightarrow>
            snd (config_set e a) = [] \<and>
            (\<exists>r. fst (config_set e a) = Inr r \<and> result r = None \<and>
                 changes r = Map.empty(''old'' \<mapsto> Val (opt_list (cfg_config_get e)), ''new'' \<mapsto> Val (PyList d)))) \<and>
         (cfg_config_get e \<noteq> Some d \<and> \<not> cfg_test e \<longrightarrow>
            snd (config_set e a) = [cfg_the_call a] \<and>
            (\<forall>post. cfg_config_set e = Inr post \<longrightarrow>
               (\<exists>r. fst (config_set e a) = Inr r \<and>
                    changes r = (if cfg_config_get e \<noteq> post
                                 then Map.empty(cfg_name a \<mapsto> OldNew (opt_list (cfg_config_get e)) (opt_list post))
                                 else Map.empty) \<and>
                    (post = Some d \<longrightarrow>
                       result r = Some True \<and>
                       changes r (cfg_name a) = Some (OldNew (opt_list (cfg_config_get e)) (PyList d))) \<and>
                    (post \<noteq> Some d \<longrightarrow> result r = Some False \<and> comment r = cfg_mismatch_msg e a))) \<and>
            (\<forall>s. cfg_config_set e = Inl (CommandExecutionError s) \<longrightarrow>
               (\<exists>r. fst (config_set e a) = Inr r \<and> result r = Some False \<and> changes r = Map.empty \<and>
                    comment r = cfg_mismatch_msg e a @ '': '' @ cfg_strip_exc e s \<and>
                    comment r \<noteq> cfg_mismatch_msg e a)))"
proof (intro conjI impI)
  assume "cfg_config_get e = Some d"
  with assms show "snd (config_set e a) = []"
    by (auto simp add: config_set_def cfg_valid_def Let_def)
  from assms \<open>cfg_config_get e = Some d\<close>
  show "\<exists>r. fst (config_set e a) = Inr r \<and> result r = Some True \<and> changes r = Map.empty"
    by (auto simp add: config_set_def cfg_valid_def initial_ret_def Let_def)
next
  assume dry: "cfg_config_get e \<noteq> Some d \<and> cfg_test e"
  with assms show "snd (config_set e a) = []"
    by (auto simp add: config_set_def cfg_valid_def Let_def)
  from assms dry
  show "\<exists>r. fst (config_set e a) = Inr r \<and> result r = None \<and>
          changes r = Map.empty(''old'' \<mapsto> Val (opt_list (cfg_config_get e)), ''new'' \<mapsto> Val (PyList d))"
    by (auto simp add: config_set_def cfg_valid_def initial_ret_def neutral_test_def Let_def)
next
  assume real: "cfg_config_get e \<noteq> Some d \<and> \<not> cfg_test e"
  with assms show "snd (config_set e a) = [cfg_the_call a]"
    by (auto simp add: config_set_def cfg_valid_def Let_def split: sum.splits exn.splits)
  from assms real
  show "\<forall>post. cfg_config_set e = Inr post \<longrightarrow>
          (\<exists>r. fst (config_set e a) = Inr r \<and>
               changes r = (if cfg_config_get e \<noteq> post
                            then Map.empty(cfg_name a \<mapsto> OldNew (opt_list (cfg_config_get e)) (opt_list post))
                            else Map.empty) \<and>
               (post = Some d \<longrightarrow>
                  result r = Some True \<and>
                  changes r (cfg_name a) = Some (OldNew (opt_list (cfg_config_get e)) (PyList d))) \<and>
               (post \<noteq> Some d \<longrightarrow> result r = Some False \<and> comment r = cfg_mismatch_msg e a))"
    by (auto simp add: config_set_def cfg_valid_def initial_ret_def fail_def opt_list_def Let_def)
  from assms real
  show "\<forall>s. cfg_config_set e = Inl (CommandExecutionError s) \<longrightarrow>
          (\<exists>r. fst (config_set e a) = Inr r \<and> result r = Some False \<and> changes r = Map.empty \<and>
               comment r = cfg_mismatch_msg e a @ '': '' @ cfg_strip_exc e s \<and>
               comment r \<noteq> cfg_mismatch_msg e a)"
    by (auto simp add: config_set_def cfg_valid_def initial_ret_def fail_def Let_def)
qed

theorem config_set_compares_writes_confirms_witness:
  "cfg_valid cfg_args_email \<and> cfg_desired cfg_args_email = Some [''a@b.c''] \<and>
   cfg_config_get cfg_env_email \<noteq> Some [''a@b.c''] \<and> \<not> cfg_test cfg_env_email \<and>
   cfg_config_set cfg_env_email = Inr (Some [''a@b.c'']) \<and>
   snd (config_set cfg_env_email cfg_args_email) = [cfg_the_call cfg_args_email] \<and>
   (\<exists>r. fst (config_set cfg_env_email cfg_args_email) = Inr r \<and> result r = Some True \<and>
        changes r ''user.email'' = Some (OldNew PyNone (PyList [''a@b.c''])))"
proof -
  have v: "cfg_valid cfg_args_email"
    by (simp add: cfg_valid_def cfg_args_email_def)
  have d: "cfg_desired cfg_args_email = Some [''a@b.c'']"
    by (simp add: cfg_desired_def cfg_multivar_list_def cfg_args_email_def)
  have n: "cfg_name cfg_args_email = ''user.email''"
    by (simp add: cfg_args_email_def)
  have g: "cfg_config_get cfg_env_email = None" "\<not> cfg_test cfg_env_email"
    "cfg_config_set cfg_env_email = Inr (Some [''a@b.c''])"
    by (simp_all add: cfg_env_email_def)
  show ?thesis
    using config_set_compares_writes_confirms [OF v d, of cfg_env_email] v d
    by (auto simp add: g n opt_list_def)
qed

end
